theory Spec2Isabelle
  imports Main "HOL-Library.Sublist"
begin

section \<open>Strings\<close>

text \<open>
  A Go string is a sequence of bytes, here a \<open>string\<close> (a list of \<open>char\<close>).
  \<^item> \<open>HasPrefix s pre\<close> is \<^verbatim>\<open>strings.HasPrefix(s, prefix)\<close>;
  \<^item> \<open>Contains s substr\<close> is \<^verbatim>\<open>strings.Contains(s, substr)\<close>: \<open>substr\<close> occurs in
    \<open>s\<close> as a contiguous run of bytes, the empty string occurs everywhere;
  \<^item> \<open>TrimPrefix s pre\<close> is \<^verbatim>\<open>strings.TrimPrefix(s, prefix)\<close>;
  \<^item> \<open>ToLower s\<close> is \<^verbatim>\<open>strings.ToLower(s)\<close> on ASCII: the bytes \<open>A\<close> to \<open>Z\<close> become
    \<open>a\<close> to \<open>z\<close>, every other byte stays. (On a rune outside ASCII Go applies the
    Unicode mapping, whose result never holds one of the ASCII letters or the underscore
    that the patterns of the classifier are made of.)
\<close>

fun HasPrefix :: "string \<Rightarrow> string \<Rightarrow> bool" where
  "HasPrefix s [] = True"
| "HasPrefix [] (p # ps) = False"
| "HasPrefix (c # cs) (p # ps) = (c = p \<and> HasPrefix cs ps)"

fun Contains :: "string \<Rightarrow> string \<Rightarrow> bool" where
  "Contains [] substr = (substr = [])"
| "Contains (c # cs) substr = (HasPrefix (c # cs) substr \<or> Contains cs substr)"

definition TrimPrefix :: "string \<Rightarrow> string \<Rightarrow> string" where
  "TrimPrefix s pre = (if HasPrefix s pre then drop (length pre) s else s)"

definition lowerByte :: "char \<Rightarrow> char" where
  "lowerByte c =
     (let n = (of_char c :: nat) in if 65 \<le> n \<and> n \<le> 90 then char_of (n + 32) else c)"

definition ToLower :: "string \<Rightarrow> string" where
  "ToLower s = map lowerByte s"

section \<open>The container runtime's data\<close>

text \<open>
  The types of the Docker SDK that the monitor reads, with the fields it uses:
  \<^verbatim>\<open>container.Config\<close> (\<open>Image\<close>, \<open>Env\<close>, \<open>Labels\<close>) and \<^verbatim>\<open>types.ContainerJSON\<close>
  (\<open>Config\<close>; the pointer is taken to be set, as it is in every answer of the daemon).
  The label map is the list of its entries in the order the \<^verbatim>\<open>range\<close> loop visits them.
\<close>

record Config =
  Config_Image :: string
  Config_Env :: "string list"
  Config_Labels :: "(string \<times> string) list"

record ContainerJSON =
  Config :: Config

section \<open>The classifier\<close>

text \<open>The loop over the labels and the loop over the environment of \<^verbatim>\<open>IsAzureAgentContainer\<close>:
  each returns whether it reached its \<^verbatim>\<open>return true\<close>.\<close>

fun labelsLoop :: "(string \<times> string) list \<Rightarrow> bool" where
  "labelsLoop [] = False"
| "labelsLoop ((key, val) # rest) =
     (let lowerKey = ToLower key; lowerValue = ToLower val in
      if (Contains lowerKey ''azure'' \<or> Contains lowerValue ''azure'')
         \<and> (Contains lowerKey ''agent'' \<or> Contains lowerValue ''agent'')
      then True
      else labelsLoop rest)"

fun envLoop :: "string list \<Rightarrow> bool" where
  "envLoop [] = False"
| "envLoop (env # rest) =
     (let lowerEnv = ToLower env in
      if Contains lowerEnv ''azp_'' \<or> Contains lowerEnv ''vsts_'' then True
      else envLoop rest)"

definition IsAzureAgentContainer :: "ContainerJSON \<Rightarrow> bool" where
  "IsAzureAgentContainer containerInfo =
     (let imageName = ToLower (Config_Image (Config containerInfo)) in
      if Contains imageName ''azure'' \<and> Contains imageName ''agent'' then True
      else if Contains imageName ''azp'' \<or> Contains imageName ''vsts'' then True
      else if labelsLoop (Config_Labels (Config containerInfo)) then True
      else envLoop (Config_Env (Config containerInfo)))"

text \<open>The three rules of the classifier as the specification words them, with
  \<open>sublist\<close> for "contains".\<close>

definition spec_image_rule :: "string \<Rightarrow> bool" where
  "spec_image_rule img =
     ((sublist ''azure'' (ToLower img) \<and> sublist ''agent'' (ToLower img))
      \<or> sublist ''azp'' (ToLower img) \<or> sublist ''vsts'' (ToLower img))"

definition spec_label_rule :: "(string \<times> string) list \<Rightarrow> bool" where
  "spec_label_rule labels =
     (\<exists>(k, v) \<in> set labels.
        (sublist ''azure'' (ToLower k) \<or> sublist ''azure'' (ToLower v))
        \<and> (sublist ''agent'' (ToLower k) \<or> sublist ''agent'' (ToLower v)))"

definition spec_env_rule :: "string list \<Rightarrow> bool" where
  "spec_env_rule envs =
     (\<exists>e \<in> set envs. sublist ''azp_'' (ToLower e) \<or> sublist ''vsts_'' (ToLower e))"

section \<open>Values, effects and the state of the process\<close>

text \<open>
  \<^item> \<open>Time\<close>: a \<^verbatim>\<open>time.Time\<close>, as \<^verbatim>\<open>time.Unix(sec, nsec)\<close> builds it.
  \<^item> \<open>error\<close>: a Go error value: \<^verbatim>\<open>io.EOF\<close>, an error with a message, or
    \<^verbatim>\<open>fmt.Errorf("msg: %w", err)\<close> wrapping another one.
  \<^item> \<open>panic\<close>: the run-time panics the code can raise.
  \<^item> \<open>outcome\<close>: how a call ends: it returns a value, it panics, or its goroutine
    stays parked (a send on a full channel that nobody drains, a \<^verbatim>\<open>select\<close> that
    receives nothing more).
\<close>

datatype Time = Unix (Sec: int) (Nsec: int)

datatype error = EOF | New string | Wrap string error

datatype panic =
    SliceBoundsOutOfRange
  | IndexOutOfRange
  | SendOnClosedChannel
  | CloseOfClosedChannel
  | NonPositiveTickerInterval

datatype 'a outcome = Return 'a | Panic panic | Blocked

record ActivityEvent =
  ContainerID :: string
  ContainerName :: string
  ImageName :: string
  Action :: string
  Timestamp :: Time
  IsAzureAgent :: bool

text \<open>
  The other types of the Docker SDK: an entry of the container list
  (\<^verbatim>\<open>types.Container\<close>: \<open>ID\<close>, \<open>Names\<close>, \<open>Image\<close>) and an event of the stream
  (\<^verbatim>\<open>events.Message\<close>: \<open>Type\<close>, \<open>Action\<close>, \<open>Actor\<close> with \<open>ID\<close> and \<open>Attributes\<close>,
  \<open>Time\<close> in seconds). \<open>dockerd\<close> is what the daemon answers through the client handle:
  to \<^verbatim>\<open>ContainerList\<close> and, for each identity, to \<^verbatim>\<open>ContainerInspect\<close>.
\<close>

record Container =
  Container_ID :: string
  Container_Names :: "string list"
  Container_Image :: string

record Actor =
  Actor_ID :: string
  Actor_Attributes :: "string \<rightharpoonup> string"

record Message =
  Message_Type :: string
  Message_Action :: string
  Message_Actor :: Actor
  Message_Time :: int

record dockerd =
  ContainerList :: "error + Container list"
  ContainerInspect :: "string \<Rightarrow> error + ContainerJSON"

text \<open>The monitor. Its context and its channel change over time: they are part of
  the state \<open>world\<close> below.\<close>

record Monitor =
  dockerClient :: dockerd
  excludeContainers :: "string list"
  excludeImages :: "string list"

text \<open>The requests to the ECS API, what the API answers (\<open>None\<close> is a nil error), and
  the notifier.\<close>

datatype attribute_value = Text string | Decimal int

record PutAttributesInput =
  Put_Cluster :: string
  Put_Attributes :: "(string \<times> attribute_value) list"

datatype ContainerInstanceStatus = ContainerInstanceStatusActive | ContainerInstanceStatusDraining

record UpdateContainerInstancesStateInput =
  Update_Cluster :: string
  Update_ContainerInstances :: "string list"
  Update_Status :: ContainerInstanceStatus

record ecs =
  PutAttributes :: "PutAttributesInput \<Rightarrow> error option"
  UpdateContainerInstancesState :: "UpdateContainerInstancesStateInput \<Rightarrow> error option"

record ECSNotifier =
  ecsClient :: ecs
  clusterName :: string
  containerInstanceARN :: string
  heartbeatInterval :: int

text \<open>The lines the code writes with \<^verbatim>\<open>log.Printf\<close> and \<^verbatim>\<open>log.Println\<close>, one constructor
  for each format string, with the arguments of the call.\<close>

datatype logline =
    ExcludedByContainerFilter string string string
      \<comment> \<open>\<^verbatim>\<open>Container %s (%s) excluded by container filter: %s\<close>\<close>
  | ExcludedByImageFilter string string string
      \<comment> \<open>\<^verbatim>\<open>Container %s (%s) excluded by image filter: %s\<close>\<close>
  | WarningFailedToInspect string error
      \<comment> \<open>\<^verbatim>\<open>Warning: failed to inspect container %s: %v\<close>\<close>
  | FoundAgents nat
      \<comment> \<open>\<^verbatim>\<open>Found %d Azure agent container(s) currently running\<close>\<close>
  | MonitoringStopped
      \<comment> \<open>\<^verbatim>\<open>Monitoring stopped\<close>\<close>
  | ErrorReceivingEvents error
      \<comment> \<open>\<^verbatim>\<open>Error receiving Docker events: %v\<close>\<close>
  | AlreadyRemoved string
      \<comment> \<open>\<^verbatim>\<open>Container %s already removed\<close>\<close>
  | FailedToInspect string error
      \<comment> \<open>\<^verbatim>\<open>Failed to inspect container %s: %v\<close>\<close>
  | AzureAgentActivity string string string
      \<comment> \<open>\<^verbatim>\<open>Azure Agent Activity: %s - %s [%s]\<close>\<close>
  | ARNNotSet
      \<comment> \<open>\<^verbatim>\<open>Container instance ARN not set, skipping ECS notification\<close>\<close>
  | ActivitySignalSent string int
      \<comment> \<open>\<^verbatim>\<open>Activity signal sent to ECS: %s (timestamp: %d)\<close>\<close>
  | StartingHeartbeat int
      \<comment> \<open>\<^verbatim>\<open>Starting ECS heartbeat every %v\<close>\<close>
  | ErrorCheckingAgents error
      \<comment> \<open>\<^verbatim>\<open>Error checking for active agents: %v\<close>\<close>
  | ErrorSendingSignal error
      \<comment> \<open>\<^verbatim>\<open>Error sending activity signal: %v\<close>\<close>
  | HeartbeatStopped
      \<comment> \<open>\<^verbatim>\<open>Heartbeat stopped\<close>\<close>
  | ProtectionSet bool
      \<comment> \<open>\<^verbatim>\<open>Instance protection set to: %v\<close>\<close>

text \<open>What the process does to the outside, in the order it does it: a log line, a
  send on the activity channel, a request to the Docker daemon or to the ECS API, the
  start of the goroutine that consumes the event stream.\<close>

datatype effect =
    Log logline
  | Send ActivityEvent
  | ContainerListCall
  | ContainerInspectCall string
  | EventsCall int  \<comment> \<open>the \<open>Since\<close> of the subscription, in seconds\<close>
  | Go_eventLoop
  | ClientClose
  | PutAttributesCall PutAttributesInput
  | UpdateContainerInstancesStateCall UpdateContainerInstancesStateInput

text \<open>
  The channel \<^verbatim>\<open>make(chan ActivityEvent, 100)\<close>: the buffered events, oldest first, and
  whether it has been closed.

  The state of the process: the effects so far (\<open>Trace\<close>), the clock (\<open>Clock k\<close> is
  what the \<open>k\<close>-th call of \<^verbatim>\<open>time.Now()\<close> returns, \<open>Reads\<close> counts the calls made), the
  channel of the monitor, whether the context of the monitor is cancelled.
\<close>

record chan =
  Buf :: "ActivityEvent list"
  Closed :: bool

definition activityChanCap :: nat where
  "activityChanCap = 100"

record world =
  Trace :: "effect list"
  Clock :: "nat \<Rightarrow> Time"
  Reads :: nat
  activityChan :: chan
  ctxDone :: bool

definition perform :: "effect \<Rightarrow> world \<Rightarrow> world" where
  "perform e w = w\<lparr>Trace := Trace w @ [e]\<rparr>"

definition logPrintf :: "logline \<Rightarrow> world \<Rightarrow> world" where
  "logPrintf l w = perform (Log l) w"

definition timeNow :: "world \<Rightarrow> Time \<times> world" where
  "timeNow w = (Clock w (Reads w), w\<lparr>Reads := Suc (Reads w)\<rparr>)"

text \<open>\<^verbatim>\<open>s[:12]\<close>: the first 12 bytes, a panic (\<open>None\<close>) when \<open>s\<close> is shorter.\<close>

definition slice12 :: "string \<Rightarrow> string option" where
  "slice12 s = (if 12 \<le> length s then Some (take 12 s) else None)"

text \<open>\<^verbatim>\<open>m.activityChan <- ev\<close>: a panic on a closed channel; the event joins the buffer
  when there is room; the sender stays parked otherwise (no receiver runs during a call).\<close>

definition chanSend :: "ActivityEvent \<Rightarrow> world \<Rightarrow> unit outcome \<times> world" where
  "chanSend ev w =
     (if Closed (activityChan w) then (Panic SendOnClosedChannel, w)
      else if length (Buf (activityChan w)) < activityChanCap then
        (Return (), perform (Send ev) (w\<lparr>activityChan := (activityChan w)\<lparr>Buf := Buf (activityChan w) @ [ev]\<rparr>\<rparr>))
      else (Blocked, w))"

section \<open>The exclusion filter\<close>

text \<open>The two loops of \<^verbatim>\<open>isExcluded\<close>. The argument of the log line,
  \<^verbatim>\<open>containerID[:12]\<close>, is evaluated before the line is written.\<close>

fun isExcluded_containers ::
  "string list \<Rightarrow> string \<Rightarrow> string \<Rightarrow> world \<Rightarrow> bool outcome \<times> world" where
  "isExcluded_containers [] containerID containerName w = (Return False, w)"
| "isExcluded_containers (excluded # rest) containerID containerName w =
     (if Contains containerName excluded \<or> Contains containerID excluded then
        (case slice12 containerID of
           None \<Rightarrow> (Panic SliceBoundsOutOfRange, w)
         | Some short \<Rightarrow>
             (Return True, logPrintf (ExcludedByContainerFilter containerName short excluded) w))
      else isExcluded_containers rest containerID containerName w)"

fun isExcluded_images ::
  "string list \<Rightarrow> string \<Rightarrow> string \<Rightarrow> string \<Rightarrow> world \<Rightarrow> bool outcome \<times> world" where
  "isExcluded_images [] containerID containerName imageName w = (Return False, w)"
| "isExcluded_images (excluded # rest) containerID containerName imageName w =
     (if Contains imageName excluded then
        (case slice12 containerID of
           None \<Rightarrow> (Panic SliceBoundsOutOfRange, w)
         | Some short \<Rightarrow>
             (Return True, logPrintf (ExcludedByImageFilter containerName short excluded) w))
      else isExcluded_images rest containerID containerName imageName w)"

definition isExcluded ::
  "Monitor \<Rightarrow> string \<Rightarrow> string \<Rightarrow> string \<Rightarrow> world \<Rightarrow> bool outcome \<times> world" where
  "isExcluded m containerID containerName imageName w =
     (case isExcluded_containers (excludeContainers m) containerID containerName w of
        (Return False, w1) \<Rightarrow> isExcluded_images (excludeImages m) containerID containerName imageName w1
      | (r, w1) \<Rightarrow> (r, w1))"

text \<open>The rule of the filter as the specification words it.\<close>

definition spec_excluded :: "Monitor \<Rightarrow> string \<Rightarrow> string \<Rightarrow> string \<Rightarrow> bool" where
  "spec_excluded m containerID containerName imageName =
     ((\<exists>e \<in> set (excludeContainers m). sublist e containerName \<or> sublist e containerID)
      \<or> (\<exists>e \<in> set (excludeImages m). sublist e imageName))"

section \<open>The activity monitor\<close>

text \<open>The loop of \<^verbatim>\<open>GetRunningAzureAgents\<close> over the listed containers; \<open>agents\<close> is the
  slice built so far. \<^verbatim>\<open>c.Names[0]\<close> panics on a container without a name. In the struct
  literal \<^verbatim>\<open>c.ID[:12]\<close> is evaluated before \<^verbatim>\<open>time.Now()\<close>.\<close>

fun agentsLoop ::
  "Monitor \<Rightarrow> Container list \<Rightarrow> ActivityEvent list \<Rightarrow> world
     \<Rightarrow> ActivityEvent list outcome \<times> world" where
  "agentsLoop m [] agents w = (Return agents, w)"
| "agentsLoop m (c # cs) agents w =
     (case Container_Names c of
        [] \<Rightarrow> (Panic IndexOutOfRange, w)
      | n0 # _ \<Rightarrow>
          (let name = TrimPrefix n0 ''/'' in
           case isExcluded m (Container_ID c) name (Container_Image c) w of
             (Panic p, w1) \<Rightarrow> (Panic p, w1)
           | (Blocked, w1) \<Rightarrow> (Blocked, w1)
           | (Return True, w1) \<Rightarrow> agentsLoop m cs agents w1
           | (Return False, w1) \<Rightarrow>
               (let w2 = perform (ContainerInspectCall (Container_ID c)) w1 in
                case ContainerInspect (dockerClient m) (Container_ID c) of
                  Inl err \<Rightarrow>
                    agentsLoop m cs agents
                      (logPrintf (WarningFailedToInspect (Container_ID c) err) w2)
                | Inr containerInfo \<Rightarrow>
                    if IsAzureAgentContainer containerInfo then
                      (case slice12 (Container_ID c) of
                         None \<Rightarrow> (Panic SliceBoundsOutOfRange, w2)
                       | Some short \<Rightarrow>
                           (case timeNow w2 of
                              (now, w3) \<Rightarrow>
                                agentsLoop m cs
                                  (agents @
                                    [\<lparr>ContainerID = short, ContainerName = name,
                                      ImageName = Container_Image c, Action = ''running'',
                                      Timestamp = now, IsAzureAgent = True\<rparr>])
                                  w3))
                    else agentsLoop m cs agents w2)))"

text \<open>\<^verbatim>\<open>GetRunningAzureAgents\<close> returns \<^verbatim>\<open>(nil, err)\<close> (\<open>Inl err\<close>) or
  \<^verbatim>\<open>(agents, nil)\<close> (\<open>Inr agents\<close>).\<close>

definition GetRunningAzureAgents ::
  "Monitor \<Rightarrow> world \<Rightarrow> (error + ActivityEvent list) outcome \<times> world" where
  "GetRunningAzureAgents m w =
     (let w0 = perform ContainerListCall w in
      case ContainerList (dockerClient m) of
        Inl err \<Rightarrow> (Return (Inl (Wrap ''failed to list containers'' err)), w0)
      | Inr containers \<Rightarrow>
          (case agentsLoop m containers [] w0 of
             (Return agents, w1) \<Rightarrow> (Return (Inr agents), w1)
           | (Panic p, w1) \<Rightarrow> (Panic p, w1)
           | (Blocked, w1) \<Rightarrow> (Blocked, w1)))"

text \<open>The loop \<^verbatim>\<open>for _, agent := range initialAgents { m.activityChan <- agent }\<close>.\<close>

fun sendAll :: "ActivityEvent list \<Rightarrow> world \<Rightarrow> unit outcome \<times> world" where
  "sendAll [] w = (Return (), w)"
| "sendAll (agent # rest) w =
     (case chanSend agent w of
        (Return u, w1) \<Rightarrow> sendAll rest w1
      | (Panic p, w1) \<Rightarrow> (Panic p, w1)
      | (Blocked, w1) \<Rightarrow> (Blocked, w1))"

text \<open>\<^verbatim>\<open>StartMonitoring\<close> returns an error (\<open>Some err\<close>) or nil (\<open>None\<close>). The subscription
  starts one minute before the clock's reading; the goroutine that consumes the stream
  is started last.\<close>

definition StartMonitoring :: "Monitor \<Rightarrow> world \<Rightarrow> error option outcome \<times> world" where
  "StartMonitoring m w =
     (case GetRunningAzureAgents m w of
        (Panic p, w1) \<Rightarrow> (Panic p, w1)
      | (Blocked, w1) \<Rightarrow> (Blocked, w1)
      | (Return (Inl err), w1) \<Rightarrow> (Return (Some (Wrap ''failed to get initial agents'' err)), w1)
      | (Return (Inr initialAgents), w1) \<Rightarrow>
          (let w2 = logPrintf (FoundAgents (length initialAgents)) w1 in
           case sendAll initialAgents w2 of
             (Panic p, w3) \<Rightarrow> (Panic p, w3)
           | (Blocked, w3) \<Rightarrow> (Blocked, w3)
           | (Return u, w3) \<Rightarrow>
               (case timeNow w3 of
                  (now, w4) \<Rightarrow>
                    (Return None,
                     perform Go_eventLoop (perform (EventsCall (Sec now - 60)) w4)))))"

text \<open>The constants of \<^verbatim>\<open>handleDockerEvent\<close>: the event type of containers, the map
  of the interesting actions (a missing key reads as \<^verbatim>\<open>false\<close>), the read of an
  attribute (a missing key reads as the empty string).\<close>

definition ContainerEventType :: string where
  "ContainerEventType = ''container''"

definition interestingActions :: "string \<rightharpoonup> bool" where
  "interestingActions =
     [''start'' \<mapsto> True, ''die'' \<mapsto> True, ''stop'' \<mapsto> True, ''kill'' \<mapsto> True,
      ''create'' \<mapsto> True, ''exec_start'' \<mapsto> True]"

definition isInteresting :: "string \<Rightarrow> bool" where
  "isInteresting a = (case interestingActions a of None \<Rightarrow> False | Some b \<Rightarrow> b)"

definition attribute :: "Actor \<Rightarrow> string \<Rightarrow> string" where
  "attribute actor k = (case Actor_Attributes actor k of None \<Rightarrow> [] | Some v \<Rightarrow> v)"

text \<open>\<^verbatim>\<open>handleDockerEvent\<close> up to its last statement: the result is the event it is about
  to send (\<open>Some\<close>), or \<open>None\<close> when it has returned before.\<close>

definition handleDockerEvent_body ::
  "Monitor \<Rightarrow> Message \<Rightarrow> world \<Rightarrow> ActivityEvent option outcome \<times> world" where
  "handleDockerEvent_body m event w =
     (if Message_Type event \<noteq> ContainerEventType then (Return None, w)
      else if \<not> isInteresting (Message_Action event) then (Return None, w)
      else
        (let w1 = perform (ContainerInspectCall (Actor_ID (Message_Actor event))) w in
         case ContainerInspect (dockerClient m) (Actor_ID (Message_Actor event)) of
           Inl err \<Rightarrow>
             (if Message_Action event = ''die'' \<or> Message_Action event = ''stop''
                 \<or> Message_Action event = ''kill'' then
                (case slice12 (Actor_ID (Message_Actor event)) of
                   None \<Rightarrow> (Panic SliceBoundsOutOfRange, w1)
                 | Some short \<Rightarrow> (Return None, logPrintf (AlreadyRemoved short) w1))
              else
                (case slice12 (Actor_ID (Message_Actor event)) of
                   None \<Rightarrow> (Panic SliceBoundsOutOfRange, w1)
                 | Some short \<Rightarrow> (Return None, logPrintf (FailedToInspect short err) w1)))
         | Inr containerInfo \<Rightarrow>
             (let name = attribute (Message_Actor event) ''name'';
                  image = attribute (Message_Actor event) ''image'' in
              case isExcluded m (Actor_ID (Message_Actor event)) name image w1 of
                (Panic p, w2) \<Rightarrow> (Panic p, w2)
              | (Blocked, w2) \<Rightarrow> (Blocked, w2)
              | (Return True, w2) \<Rightarrow> (Return None, w2)
              | (Return False, w2) \<Rightarrow>
                  (let isAzureAgent = IsAzureAgentContainer containerInfo in
                   if \<not> isAzureAgent then (Return None, w2)
                   else
                     (case slice12 (Actor_ID (Message_Actor event)) of
                        None \<Rightarrow> (Panic SliceBoundsOutOfRange, w2)
                      | Some short \<Rightarrow>
                          (let activityEvent =
                                 \<lparr>ContainerID = short, ContainerName = name, ImageName = image,
                                  Action = Message_Action event,
                                  Timestamp = Unix (Message_Time event) 0,
                                  IsAzureAgent = True\<rparr> in
                           (Return (Some activityEvent),
                            logPrintf
                              (AzureAgentActivity (Action activityEvent)
                                 (ContainerName activityEvent) (ContainerID activityEvent))
                              w2)))))))"

definition handleDockerEvent :: "Monitor \<Rightarrow> Message \<Rightarrow> world \<Rightarrow> unit outcome \<times> world" where
  "handleDockerEvent m event w =
     (case handleDockerEvent_body m event w of
        (Panic p, w1) \<Rightarrow> (Panic p, w1)
      | (Blocked, w1) \<Rightarrow> (Blocked, w1)
      | (Return None, w1) \<Rightarrow> (Return (), w1)
      | (Return (Some activityEvent), w1) \<Rightarrow> chanSend activityEvent w1)"

text \<open>\<^verbatim>\<open>HasActiveAgents\<close> returns \<^verbatim>\<open>(false, err)\<close> (\<open>Inl err\<close>) or
  \<^verbatim>\<open>(len(agents) > 0, nil)\<close>.\<close>

definition HasActiveAgents :: "Monitor \<Rightarrow> world \<Rightarrow> (error + bool) outcome \<times> world" where
  "HasActiveAgents m w =
     (case GetRunningAzureAgents m w of
        (Panic p, w1) \<Rightarrow> (Panic p, w1)
      | (Blocked, w1) \<Rightarrow> (Blocked, w1)
      | (Return (Inl err), w1) \<Rightarrow> (Return (Inl err), w1)
      | (Return (Inr agents), w1) \<Rightarrow> (Return (Inr (length agents > 0)), w1))"

text \<open>The three statements of \<^verbatim>\<open>Stop\<close>, on a monitor built by the constructor (its
  \<^verbatim>\<open>cancel\<close> and its client are set): cancel the context, close the client, close the
  channel. Closing a closed channel panics.\<close>

definition Stop_cancel :: "world \<Rightarrow> world" where
  "Stop_cancel w = w\<lparr>ctxDone := True\<rparr>"

definition Stop_closeClient :: "world \<Rightarrow> world" where
  "Stop_closeClient w = perform ClientClose w"

definition Stop_closeChan :: "world \<Rightarrow> unit outcome \<times> world" where
  "Stop_closeChan w =
     (if Closed (activityChan w) then (Panic CloseOfClosedChannel, w)
      else (Return (), w\<lparr>activityChan := (activityChan w)\<lparr>Closed := True\<rparr>\<rparr>))"

definition Monitor_Stop :: "world \<Rightarrow> unit outcome \<times> world" where
  "Monitor_Stop w = Stop_closeChan (Stop_closeClient (Stop_cancel w))"

section \<open>The lifecycle notifier\<close>

definition SendActivitySignal :: "ECSNotifier \<Rightarrow> bool \<Rightarrow> world \<Rightarrow> error option \<times> world" where
  "SendActivitySignal n hasActivity w =
     (if containerInstanceARN n = [] then (None, logPrintf ARNNotSet w)
      else
        (case timeNow w of
           (now, w1) \<Rightarrow>
             (let timestamp = Sec now;
                  activityStatus = (if hasActivity then ''active'' else ''inactive'');
                  input = \<lparr>Put_Cluster = clusterName n,
                           Put_Attributes =
                             [(''azure-agent-activity'', Text activityStatus),
                              (''azure-agent-last-check'', Decimal timestamp)]\<rparr>;
                  w2 = perform (PutAttributesCall input) w1 in
              case PutAttributes (ecsClient n) input of
                Some err \<Rightarrow> (Some (Wrap ''failed to put attributes'' err), w2)
              | None \<Rightarrow> (None, logPrintf (ActivitySignalSent activityStatus timestamp) w2))))"

definition SetProtectionEnabled :: "ECSNotifier \<Rightarrow> bool \<Rightarrow> world \<Rightarrow> error option \<times> world" where
  "SetProtectionEnabled n enabled w =
     (if containerInstanceARN n = [] then (Some (New ''container instance ARN not set''), w)
      else
        (let status = (if enabled then ContainerInstanceStatusActive
                       else ContainerInstanceStatusDraining);
             input = \<lparr>Update_Cluster = clusterName n,
                      Update_ContainerInstances = [containerInstanceARN n],
                      Update_Status = status\<rparr>;
             w1 = perform (UpdateContainerInstancesStateCall input) w in
         case UpdateContainerInstancesState (ecsClient n) input of
           Some err \<Rightarrow> (Some (Wrap ''failed to update instance state'' err), w1)
         | None \<Rightarrow> (None, logPrintf (ProtectionSet enabled) w1)))"

text \<open>
  The heartbeat. Each element of the list is the case that the \<^verbatim>\<open>select\<close> of one
  iteration takes: \<open>TickerC d\<close>, the ticker fired, and the daemon answers as \<open>d\<close> during
  this tick; \<open>StopChan\<close>, the receive from the stop channel. When the list is used up
  the goroutine stays parked in its \<^verbatim>\<open>select\<close>. \<^verbatim>\<open>time.NewTicker\<close> panics on an interval
  that is not positive.
\<close>

datatype heartbeat_select = TickerC dockerd | StopChan

fun heartbeatLoop ::
  "ECSNotifier \<Rightarrow> Monitor \<Rightarrow> heartbeat_select list \<Rightarrow> world \<Rightarrow> unit outcome \<times> world" where
  "heartbeatLoop n monitor [] w = (Blocked, w)"
| "heartbeatLoop n monitor (StopChan # rest) w = (Return (), logPrintf HeartbeatStopped w)"
| "heartbeatLoop n monitor (TickerC d # rest) w =
     (case HasActiveAgents (monitor\<lparr>dockerClient := d\<rparr>) w of
        (Panic p, w1) \<Rightarrow> (Panic p, w1)
      | (Blocked, w1) \<Rightarrow> (Blocked, w1)
      | (Return (Inl err), w1) \<Rightarrow>
          heartbeatLoop n monitor rest (logPrintf (ErrorCheckingAgents err) w1)
      | (Return (Inr hasActivity), w1) \<Rightarrow>
          (case SendActivitySignal n hasActivity w1 of
             (Some err, w2) \<Rightarrow> heartbeatLoop n monitor rest (logPrintf (ErrorSendingSignal err) w2)
           | (None, w2) \<Rightarrow> heartbeatLoop n monitor rest w2))"

definition StartHeartbeat ::
  "ECSNotifier \<Rightarrow> Monitor \<Rightarrow> heartbeat_select list \<Rightarrow> world \<Rightarrow> unit outcome \<times> world" where
  "StartHeartbeat n monitor selects w =
     (if heartbeatInterval n \<le> 0 then (Panic NonPositiveTickerInterval, w)
      else heartbeatLoop n monitor selects
             (logPrintf (StartingHeartbeat (heartbeatInterval n)) w))"

section \<open>Example values\<close>

text \<open>A fresh process (nothing logged, the channel empty and open, a clock that
  starts at second 1000) and a monitor that excludes the images of one repository.\<close>

definition ex_world :: world where
  "ex_world = \<lparr>Trace = [], Clock = (\<lambda>k. Unix (1000 + int k) 0), Reads = 0,
      activityChan = \<lparr>Buf = [], Closed = False\<rparr>, ctxDone = False\<rparr>"

definition ex_filter :: Monitor where
  "ex_filter = \<lparr>dockerClient = \<lparr>ContainerList = Inr [], ContainerInspect = (\<lambda>i. Inl (New ''No such container''))\<rparr>,
      excludeContainers = [], excludeImages = [''azure-agent'']\<rparr>"

text \<open>The effects that are requests to the ECS API.\<close>

fun isEcsCall :: "effect \<Rightarrow> bool" where
  "isEcsCall (PutAttributesCall input) = True"
| "isEcsCall (UpdateContainerInstancesStateCall input) = True"
| "isEcsCall e = False"

text \<open>A notifier whose lookup of its own container instance failed, on an API that would
  accept every request.\<close>

definition ex_unresolved :: ECSNotifier where
  "ex_unresolved =
     \<lparr>ecsClient = \<lparr>PutAttributes = (\<lambda>input. None),
                   UpdateContainerInstancesState = (\<lambda>input. None)\<rparr>,
      clusterName = ''build-cluster'', containerInstanceARN = [], heartbeatInterval = 30\<rparr>"

section \<open>The inventory pass, as the specification words it\<close>

text \<open>
  \<^item> \<open>displayName c\<close>: the display name of a listed container, its first name without
    the leading slash;
  \<^item> \<open>tracked m c\<close>: the container passes the exclusion filter, its configuration can be
    fetched, and the classifier accepts it;
  \<^item> \<open>runningEvent c t\<close>: the event of the inventory pass for \<open>c\<close>, stamped \<open>t\<close>;
  \<^item> \<open>panics_on m c\<close>: the container has no name, or its identity is shorter than 12
    bytes and the code reaches one of its \<^verbatim>\<open>[:12]\<close>;
  \<^item> \<open>isInventoryEffect\<close>: the effects of the enumeration: log lines and requests for
    a container's configuration.
\<close>

definition displayName :: "Container \<Rightarrow> string" where
  "displayName c = (case Container_Names c of [] \<Rightarrow> [] | n0 # rest \<Rightarrow> TrimPrefix n0 ''/'')"

definition classified :: "Monitor \<Rightarrow> string \<Rightarrow> bool" where
  "classified m containerID =
     (case ContainerInspect (dockerClient m) containerID of
        Inl err \<Rightarrow> False
      | Inr containerInfo \<Rightarrow> IsAzureAgentContainer containerInfo)"

definition tracked :: "Monitor \<Rightarrow> Container \<Rightarrow> bool" where
  "tracked m c =
     (\<not> spec_excluded m (Container_ID c) (displayName c) (Container_Image c)
      \<and> classified m (Container_ID c))"

definition runningEvent :: "Container \<Rightarrow> Time \<Rightarrow> ActivityEvent" where
  "runningEvent c t =
     \<lparr>ContainerID = take 12 (Container_ID c), ContainerName = displayName c,
      ImageName = Container_Image c, Action = ''running'', Timestamp = t,
      IsAzureAgent = True\<rparr>"

definition panics_on :: "Monitor \<Rightarrow> Container \<Rightarrow> bool" where
  "panics_on m c =
     (Container_Names c = []
      \<or> (length (Container_ID c) < 12
          \<and> (spec_excluded m (Container_ID c) (displayName c) (Container_Image c)
              \<or> classified m (Container_ID c))))"

fun isInventoryEffect :: "effect \<Rightarrow> bool" where
  "isInventoryEffect (Log l) = True"
| "isInventoryEffect (ContainerInspectCall i) = True"
| "isInventoryEffect e = False"

text \<open>
  \<^item> \<open>inventoryEvents m containers w\<close>: the events of an inventory pass that starts in
    \<open>w\<close>: one for each tracked container, in the order of the list, the \<open>k\<close>-th of them
    stamped with the \<open>k\<close>-th next reading of the clock;
  \<^item> \<open>isChannelOrStreamEffect\<close>: a send on the activity channel, the subscription to the
    event stream, the start of the goroutine that consumes it.
\<close>

definition inventoryEvents :: "Monitor \<Rightarrow> Container list \<Rightarrow> world \<Rightarrow> ActivityEvent list" where
  "inventoryEvents m containers w =
     map (\<lambda>(c, k). runningEvent c (Clock w k))
       (zip (filter (tracked m) containers)
            [Reads w ..< Reads w + length (filter (tracked m) containers)])"

fun isChannelOrStreamEffect :: "effect \<Rightarrow> bool" where
  "isChannelOrStreamEffect (Send ev) = True"
| "isChannelOrStreamEffect (EventsCall since) = True"
| "isChannelOrStreamEffect Go_eventLoop = True"
| "isChannelOrStreamEffect e = False"

text \<open>A daemon with three running containers: a build agent, a web server, and a
  container that vanishes before it can be inspected; a monitor on it without
  exclusion rules.\<close>

definition ex_agentInfo :: ContainerJSON where
  "ex_agentInfo =
     \<lparr>Config = \<lparr>Config_Image = ''VSTS-agent:1'', Config_Env = [], Config_Labels = []\<rparr>\<rparr>"

definition ex_webInfo :: ContainerJSON where
  "ex_webInfo =
     \<lparr>Config = \<lparr>Config_Image = ''nginx:latest'', Config_Env = [''PORT=8080''],
                Config_Labels = []\<rparr>\<rparr>"

definition ex_containers :: "Container list" where
  "ex_containers =
     [\<lparr>Container_ID = ''0123456789abcdef'', Container_Names = [''/agent1''],
       Container_Image = ''vsts-agent:1''\<rparr>,
      \<lparr>Container_ID = ''aaaabbbbccccdddd'', Container_Names = [''/web''],
       Container_Image = ''nginx:latest''\<rparr>,
      \<lparr>Container_ID = ''fedcba9876543210'', Container_Names = [''/gone''],
       Container_Image = ''vsts-agent:1''\<rparr>]"

definition ex_dockerd :: dockerd where
  "ex_dockerd =
     \<lparr>ContainerList = Inr ex_containers,
      ContainerInspect =
        (\<lambda>i. if i = ''0123456789abcdef'' then Inr ex_agentInfo
             else if i = ''aaaabbbbccccdddd'' then Inr ex_webInfo
             else Inl (New ''No such container''))\<rparr>"

definition ex_monitor :: Monitor where
  "ex_monitor = \<lparr>dockerClient = ex_dockerd, excludeContainers = [], excludeImages = []\<rparr>"

definition ex_unreachable :: Monitor where
  "ex_unreachable =
     \<lparr>dockerClient = ex_dockerd\<lparr>ContainerList := Inl (New ''Cannot connect to the Docker daemon'')\<rparr>,
      excludeContainers = [], excludeImages = []\<rparr>"

section \<open>The handling of a live event, as the specification words it\<close>

text \<open>
  \<^item> \<open>allowList\<close>: the actions that are handled; \<open>terminalActions\<close>: those after which a
    container is expected to be gone;
  \<^item> \<open>eventName\<close>, \<open>eventImage\<close>: the name and the image that the event carries;
  \<^item> \<open>passes m event\<close>: the event is a container event with an allowed action, its
    container can be inspected, is not excluded and is classified as a tracked workload;
  \<^item> \<open>liveEvent event\<close>: the activity event made from a runtime event;
  \<^item> \<open>isWarning\<close>: the log lines that report a failure to inspect a container.
\<close>

definition allowList :: "string set" where
  "allowList = {''create'', ''start'', ''stop'', ''kill'', ''die'', ''exec_start''}"

definition terminalActions :: "string set" where
  "terminalActions = {''stop'', ''kill'', ''die''}"

definition eventName :: "Message \<Rightarrow> string" where
  "eventName event = attribute (Message_Actor event) ''name''"

definition eventImage :: "Message \<Rightarrow> string" where
  "eventImage event = attribute (Message_Actor event) ''image''"

definition passes :: "Monitor \<Rightarrow> Message \<Rightarrow> bool" where
  "passes m event =
     (Message_Type event = ''container'' \<and> Message_Action event \<in> allowList
      \<and> \<not> spec_excluded m (Actor_ID (Message_Actor event)) (eventName event) (eventImage event)
      \<and> classified m (Actor_ID (Message_Actor event)))"

definition liveEvent :: "Message \<Rightarrow> ActivityEvent" where
  "liveEvent event =
     \<lparr>ContainerID = take 12 (Actor_ID (Message_Actor event)), ContainerName = eventName event,
      ImageName = eventImage event, Action = Message_Action event,
      Timestamp = Unix (Message_Time event) 0, IsAzureAgent = True\<rparr>"

fun isWarning :: "effect \<Rightarrow> bool" where
  "isWarning (Log (FailedToInspect short err)) = True"
| "isWarning (Log (WarningFailedToInspect containerID err)) = True"
| "isWarning e = False"

fun isSend :: "effect \<Rightarrow> bool" where
  "isSend (Send ev) = True"
| "isSend e = False"

text \<open>Live events: the start of the build agent of the example daemon, the death of
  its vanished container, and a start of a container with a three-byte identity that
  cannot be inspected.\<close>

definition ex_start :: Message where
  "ex_start =
     \<lparr>Message_Type = ''container'', Message_Action = ''start'',
      Message_Actor = \<lparr>Actor_ID = ''0123456789abcdef'',
                       Actor_Attributes = [''name'' \<mapsto> ''agent1'', ''image'' \<mapsto> ''vsts-agent:1'']\<rparr>,
      Message_Time = 42\<rparr>"

definition ex_die :: Message where
  "ex_die =
     \<lparr>Message_Type = ''container'', Message_Action = ''die'',
      Message_Actor = \<lparr>Actor_ID = ''fedcba9876543210'',
                       Actor_Attributes = [''name'' \<mapsto> ''gone'', ''image'' \<mapsto> ''vsts-agent:1'']\<rparr>,
      Message_Time = 43\<rparr>"

definition ex_short_start :: Message where
  "ex_short_start =
     \<lparr>Message_Type = ''container'', Message_Action = ''start'',
      Message_Actor = \<lparr>Actor_ID = ''abc'', Actor_Attributes = Map.empty\<rparr>,
      Message_Time = 44\<rparr>"

text \<open>The example process with a clock that starts at second 2000, and a daemon whose
  build agent has a three-byte identity.\<close>

definition ex_world_later :: world where
  "ex_world_later = ex_world\<lparr>Clock := (\<lambda>k. Unix (2000 + int k) 0)\<rparr>"

definition ex_short_monitor :: Monitor where
  "ex_short_monitor =
     \<lparr>dockerClient =
        \<lparr>ContainerList =
           Inr [\<lparr>Container_ID = ''abc'', Container_Names = [''/agent1''],
                 Container_Image = ''vsts-agent:1''\<rparr>],
         ContainerInspect = (\<lambda>i. Inr ex_agentInfo)\<rparr>,
      excludeContainers = [], excludeImages = []\<rparr>"

section \<open>The heartbeat, as the specification words it\<close>

text \<open>
  \<^item> \<open>tickReturns monitor d\<close>: during a tick in which the daemon answers as \<open>d\<close> the
    snapshot query returns (no listed container makes the enumeration panic);
  \<^item> \<open>tick n monitor w d\<close>: the state after one tick that starts in \<open>w\<close>: the snapshot is
    queried; on success the activity signal is sent with the result, and a failure of
    the signal is logged; on failure the error is logged;
  \<^item> \<open>isListCall\<close>: the request that every snapshot query starts with.
\<close>

definition tickReturns :: "Monitor \<Rightarrow> dockerd \<Rightarrow> bool" where
  "tickReturns monitor d =
     (case ContainerList d of
        Inl err \<Rightarrow> True
      | Inr containers \<Rightarrow> \<forall>c \<in> set containers. \<not> panics_on (monitor\<lparr>dockerClient := d\<rparr>) c)"

definition tick :: "ECSNotifier \<Rightarrow> Monitor \<Rightarrow> world \<Rightarrow> dockerd \<Rightarrow> world" where
  "tick n monitor w d =
     (case HasActiveAgents (monitor\<lparr>dockerClient := d\<rparr>) w of
        (Return (Inr hasActivity), w1) \<Rightarrow>
          (case SendActivitySignal n hasActivity w1 of
             (None, w2) \<Rightarrow> w2
           | (Some err, w2) \<Rightarrow> logPrintf (ErrorSendingSignal err) w2)
      | (Return (Inl err), w1) \<Rightarrow> logPrintf (ErrorCheckingAgents err) w1
      | (Panic p, w1) \<Rightarrow> w1
      | (Blocked, w1) \<Rightarrow> w1)"

fun isListCall :: "effect \<Rightarrow> bool" where
  "isListCall ContainerListCall = True"
| "isListCall e = False"

text \<open>A notifier that has found its container instance, and a daemon that cannot be
  reached.\<close>

definition ex_resolved :: ECSNotifier where
  "ex_resolved = ex_unresolved\<lparr>containerInstanceARN := ''arn:aws:ecs:instance/1''\<rparr>"

definition ex_down :: dockerd where
  "ex_down = ex_dockerd\<lparr>ContainerList := Inl (New ''Cannot connect to the Docker daemon'')\<rparr>"

section \<open>The monitor as concurrent tasks\<close>

text \<open>
  After \<open>StartMonitoring\<close> three tasks share the state of the process: the goroutine of
  the event loop, the caller of \<open>Stop\<close>, and the consumer of the channel. A schedule is
  the list of the steps they take, in the order they take them.
  \<^item> \<open>goroutine\<close>: where the event loop is: in its \<^verbatim>\<open>select\<close>; inside \<open>handleDockerEvent\<close>,
    about to run its last statement, the send of the event it has built; returned;
    or stopped by a panic.
  \<^item> \<open>stopper\<close>: how far the one call of \<open>Stop\<close> has come: not called, context cancelled,
    client closed, channel closed (returned), or stopped by a panic.
  \<^item> \<open>step\<close>: the \<^verbatim>\<open>select\<close> receives an event and the handler runs up to its send; the
    pending send is performed; the \<^verbatim>\<open>select\<close> receives from \<^verbatim>\<open>ctx.Done()\<close>; the
    \<^verbatim>\<open>select\<close> receives from the error channel; \<open>Stop\<close> runs its next statement; the
    consumer receives the oldest event.
  \<^item> \<open>clientOf m w\<close>: the client as it answers in \<open>w\<close>: once the context is cancelled every
    request made with it fails.
  \<^item> \<open>exec1 m s p\<close>: the process after step \<open>s\<close>, or \<open>None\<close> when the step cannot be
    taken in \<open>p\<close> (the task is not there, the channel it waits for is not ready);
    \<open>exec\<close> runs a schedule.
\<close>

datatype goroutine = AtSelect | Sending ActivityEvent | Exited | Crashed panic

datatype stopper = NotCalled | Cancelled | ClientClosed | Stopped | StopCrashed panic

record process =
  World :: world
  EventLoop :: goroutine
  Stopper :: stopper

datatype step =
    ReceiveEvent Message
  | CompleteSend
  | ReceiveDone
  | ReceiveErr "error option"
  | StopStep
  | Consume

definition clientOf :: "Monitor \<Rightarrow> world \<Rightarrow> Monitor" where
  "clientOf m w =
     (if ctxDone w
      then m\<lparr>dockerClient :=
               \<lparr>ContainerList = Inl (New ''context canceled''),
                ContainerInspect = (\<lambda>i. Inl (New ''context canceled''))\<rparr>\<rparr>
      else m)"

fun exec1 :: "Monitor \<Rightarrow> step \<Rightarrow> process \<Rightarrow> process option" where
  "exec1 m (ReceiveEvent event) p =
     (case EventLoop p of
        AtSelect \<Rightarrow>
          (case handleDockerEvent_body (clientOf m (World p)) event (World p) of
             (Return None, w1) \<Rightarrow> Some (p\<lparr>World := w1\<rparr>)
           | (Return (Some activityEvent), w1) \<Rightarrow>
               Some (p\<lparr>World := w1, EventLoop := Sending activityEvent\<rparr>)
           | (Panic pn, w1) \<Rightarrow> Some (p\<lparr>World := w1, EventLoop := Crashed pn\<rparr>)
           | (Blocked, w1) \<Rightarrow> None)
      | Sending activityEvent \<Rightarrow> None
      | Exited \<Rightarrow> None
      | Crashed pn \<Rightarrow> None)"
| "exec1 m CompleteSend p =
     (case EventLoop p of
        Sending activityEvent \<Rightarrow>
          (case chanSend activityEvent (World p) of
             (Return u, w1) \<Rightarrow> Some (p\<lparr>World := w1, EventLoop := AtSelect\<rparr>)
           | (Panic pn, w1) \<Rightarrow> Some (p\<lparr>World := w1, EventLoop := Crashed pn\<rparr>)
           | (Blocked, w1) \<Rightarrow> None)
      | AtSelect \<Rightarrow> None
      | Exited \<Rightarrow> None
      | Crashed pn \<Rightarrow> None)"
| "exec1 m ReceiveDone p =
     (case EventLoop p of
        AtSelect \<Rightarrow>
          (if ctxDone (World p)
           then Some (p\<lparr>World := logPrintf MonitoringStopped (World p), EventLoop := Exited\<rparr>)
           else None)
      | Sending activityEvent \<Rightarrow> None
      | Exited \<Rightarrow> None
      | Crashed pn \<Rightarrow> None)"
| "exec1 m (ReceiveErr err) p =
     (case EventLoop p of
        AtSelect \<Rightarrow>
          (case err of
             None \<Rightarrow> Some (p\<lparr>EventLoop := Exited\<rparr>)
           | Some e \<Rightarrow>
               if e \<noteq> EOF
               then Some (p\<lparr>World := logPrintf (ErrorReceivingEvents e) (World p),
                            EventLoop := Exited\<rparr>)
               else Some (p\<lparr>EventLoop := Exited\<rparr>))
      | Sending activityEvent \<Rightarrow> None
      | Exited \<Rightarrow> None
      | Crashed pn \<Rightarrow> None)"
| "exec1 m StopStep p =
     (case Stopper p of
        NotCalled \<Rightarrow> Some (p\<lparr>World := Stop_cancel (World p), Stopper := Cancelled\<rparr>)
      | Cancelled \<Rightarrow> Some (p\<lparr>World := Stop_closeClient (World p), Stopper := ClientClosed\<rparr>)
      | ClientClosed \<Rightarrow>
          (case Stop_closeChan (World p) of
             (Return u, w1) \<Rightarrow> Some (p\<lparr>World := w1, Stopper := Stopped\<rparr>)
           | (Panic pn, w1) \<Rightarrow> Some (p\<lparr>World := w1, Stopper := StopCrashed pn\<rparr>)
           | (Blocked, w1) \<Rightarrow> None)
      | Stopped \<Rightarrow> None
      | StopCrashed pn \<Rightarrow> None)"
| "exec1 m Consume p =
     (case Buf (activityChan (World p)) of
        [] \<Rightarrow> None
      | ev # rest \<Rightarrow>
          Some (p\<lparr>World := (World p)\<lparr>activityChan := (activityChan (World p))\<lparr>Buf := rest\<rparr>\<rparr>\<rparr>))"

fun exec :: "Monitor \<Rightarrow> step list \<Rightarrow> process \<Rightarrow> process option" where
  "exec m [] p = Some p"
| "exec m (s # ss) p = (case exec1 m s p of None \<Rightarrow> None | Some p1 \<Rightarrow> exec m ss p1)"

text \<open>The example process once \<open>StartMonitoring\<close> has returned, and the schedule of a
  shutdown that arrives while the handler is at work: the event loop receives the start
  of the build agent and builds its event; \<open>Stop\<close> runs its three statements; the handler
  goes on to its send.\<close>

definition ex_process :: process where
  "ex_process =
     \<lparr>World = snd (StartMonitoring ex_monitor ex_world), EventLoop = AtSelect,
      Stopper = NotCalled\<rparr>"

definition ex_shutdown_race :: "step list" where
  "ex_shutdown_race = [ReceiveEvent ex_start, StopStep, StopStep, StopStep, CompleteSend]"

text \<open>\<open>closedByStop p\<close>: the channel is closed exactly when the call of \<open>Stop\<close> has
  returned, and \<open>Stop\<close> has not panicked.\<close>

definition closedByStop :: "process \<Rightarrow> bool" where
  "closedByStop p =
     (Closed (activityChan (World p)) = (Stopper p = Stopped)
      \<and> (case Stopper p of StopCrashed pn \<Rightarrow> False | _ \<Rightarrow> True))"

text \<open>The example process with a channel that already holds 100 events.\<close>

definition ex_world_full :: world where
  "ex_world_full =
     ex_world\<lparr>activityChan := \<lparr>Buf = replicate 100 (liveEvent ex_start), Closed = False\<rparr>\<rparr>"

section \<open>Facts about the string functions\<close>

lemma HasPrefix_prefix: "HasPrefix s p = prefix p s"
  by (induction s p rule: HasPrefix.induct) auto

lemma Contains_sublist: "Contains s substr = sublist substr s"
proof (induction s)
  case Nil
  then show ?case by auto
next
  case (Cons c cs)
  then show ?case by (simp add: HasPrefix_prefix sublist_Cons_right)
qed

lemma labelsLoop_spec: "labelsLoop labels = spec_label_rule labels"
  by (induction labels rule: labelsLoop.induct)
     (auto simp: spec_label_rule_def Contains_sublist Let_def)

lemma envLoop_spec: "envLoop envs = spec_env_rule envs"
  by (induction envs) (auto simp: spec_env_rule_def Contains_sublist Let_def)

lemma ToLower_nginx: "ToLower ''nginx:latest'' = ''nginx:latest''"
  by (simp add: ToLower_def lowerByte_def)

lemma nginx_no_image_rule: "\<not> spec_image_rule ''nginx:latest''"
  unfolding spec_image_rule_def ToLower_nginx Contains_sublist [symmetric]
  by simp

section \<open>Facts about the exclusion filter\<close>

lemma isExcluded_containers_fst:
  "fst (isExcluded_containers es cid name w) =
     (if \<exists>e \<in> set es. sublist e name \<or> sublist e cid
      then (if 12 \<le> length cid then Return True else Panic SliceBoundsOutOfRange)
      else Return False)"
  by (induction es) (auto simp: slice12_def Contains_sublist)

lemma isExcluded_containers_snd:
  "snd (isExcluded_containers es cid name w) = w
   \<or> (\<exists>e. snd (isExcluded_containers es cid name w)
           = logPrintf (ExcludedByContainerFilter name (take 12 cid) e) w)"
  by (induction es) (auto simp: slice12_def)

lemma isExcluded_images_fst:
  "fst (isExcluded_images es cid name img w) =
     (if \<exists>e \<in> set es. sublist e img
      then (if 12 \<le> length cid then Return True else Panic SliceBoundsOutOfRange)
      else Return False)"
  by (induction es) (auto simp: slice12_def Contains_sublist)

lemma isExcluded_images_snd:
  "snd (isExcluded_images es cid name img w) = w
   \<or> (\<exists>e. snd (isExcluded_images es cid name img w)
           = logPrintf (ExcludedByImageFilter name (take 12 cid) e) w)"
  by (induction es) (auto simp: slice12_def)

lemma isExcluded_images_False:
  "fst (isExcluded_images es cid name img w) = Return False
   \<Longrightarrow> snd (isExcluded_images es cid name img w) = w"
  by (induction es) (auto simp: slice12_def split: if_splits)

lemma isExcluded_containers_False:
  "fst (isExcluded_containers es cid name w) = Return False
   \<Longrightarrow> snd (isExcluded_containers es cid name w) = w"
  by (induction es) (auto simp: slice12_def split: if_splits)

lemma isExcluded_fst:
  "fst (isExcluded m cid name img w) =
     (if spec_excluded m cid name img
      then (if 12 \<le> length cid then Return True else Panic SliceBoundsOutOfRange)
      else Return False)"
proof -
  obtain r w1 where c: "isExcluded_containers (excludeContainers m) cid name w = (r, w1)"
    by (cases "isExcluded_containers (excludeContainers m) cid name w")
  have r: "r = (if \<exists>e \<in> set (excludeContainers m). sublist e name \<or> sublist e cid
      then (if 12 \<le> length cid then Return True else Panic SliceBoundsOutOfRange)
      else Return False)"
    using isExcluded_containers_fst [of "excludeContainers m" cid name w] c by simp
  show ?thesis
    using c r isExcluded_images_fst [of "excludeImages m" cid name img w1]
    by (auto simp: isExcluded_def spec_excluded_def split: outcome.splits bool.splits)
qed

lemma isExcluded_False:
  assumes "fst (isExcluded m cid name img w) = Return False"
  shows "snd (isExcluded m cid name img w) = w"
proof -
  obtain r w1 where c: "isExcluded_containers (excludeContainers m) cid name w = (r, w1)"
    by (cases "isExcluded_containers (excludeContainers m) cid name w")
  show ?thesis
  proof (cases "r = Return False")
    case True
    then have "w1 = w"
      using isExcluded_containers_False [of "excludeContainers m" cid name w] c by simp
    then show ?thesis
      using assms c True isExcluded_images_False [of "excludeImages m" cid name img w]
      by (simp add: isExcluded_def)
  next
    case False
    then show ?thesis
      using assms c by (auto simp: isExcluded_def split: outcome.splits bool.splits)
  qed
qed

lemma isExcluded_snd:
  "snd (isExcluded m cid name img w) = w
   \<or> (\<exists>l. snd (isExcluded m cid name img w) = logPrintf l w)"
proof -
  obtain r w1 where c: "isExcluded_containers (excludeContainers m) cid name w = (r, w1)"
    by (cases "isExcluded_containers (excludeContainers m) cid name w")
  show ?thesis
  proof (cases "r = Return False")
    case True
    then have "w1 = w"
      using isExcluded_containers_False [of "excludeContainers m" cid name w] c by simp
    then show ?thesis
      using c True isExcluded_images_snd [of "excludeImages m" cid name img w]
      by (auto simp: isExcluded_def)
  next
    case False
    then have "isExcluded m cid name img w = (r, w1)"
      using c by (auto simp: isExcluded_def split: outcome.splits bool.splits)
    then show ?thesis
      using c isExcluded_containers_snd [of "excludeContainers m" cid name w]
      by auto
  qed
qed

section \<open>Facts about the notifier\<close>

lemma Trace_logPrintf: "Trace (logPrintf l w) = Trace w @ [Log l]"
  by (simp add: logPrintf_def perform_def)

lemma Trace_perform: "Trace (perform e w) = Trace w @ [e]"
  by (simp add: perform_def)

section \<open>Facts about the inventory pass\<close>

lemma isExcluded_world:
  "\<exists>pre. list_all isInventoryEffect pre
     \<and> snd (isExcluded m cid name img w) = w\<lparr>Trace := Trace w @ pre\<rparr>"
proof -
  consider "snd (isExcluded m cid name img w) = w"
    | l where "snd (isExcluded m cid name img w) = logPrintf l w"
    using isExcluded_snd [of m cid name img w] by blast
  then show ?thesis
  proof cases
    case 1
    then have "list_all isInventoryEffect []
      \<and> snd (isExcluded m cid name img w) = w\<lparr>Trace := Trace w @ []\<rparr>"
      by simp
    then show ?thesis by blast
  next
    case 2
    then have "list_all isInventoryEffect [Log l]
      \<and> snd (isExcluded m cid name img w) = w\<lparr>Trace := Trace w @ [Log l]\<rparr>"
      by (simp add: logPrintf_def perform_def)
    then show ?thesis by blast
  qed
qed

text \<open>One iteration of the loop, with the filter and the classifier replaced by what
  they compute.\<close>

lemma agentsLoop_Cons:
  "agentsLoop m (c # cs) agents w =
     (if Container_Names c = [] then (Panic IndexOutOfRange, w)
      else if spec_excluded m (Container_ID c) (displayName c) (Container_Image c) then
        (if length (Container_ID c) < 12
         then (Panic SliceBoundsOutOfRange,
               snd (isExcluded m (Container_ID c) (displayName c) (Container_Image c) w))
         else agentsLoop m cs agents
                (snd (isExcluded m (Container_ID c) (displayName c) (Container_Image c) w)))
      else
        (case ContainerInspect (dockerClient m) (Container_ID c) of
           Inl err \<Rightarrow>
             agentsLoop m cs agents
               (logPrintf (WarningFailedToInspect (Container_ID c) err)
                  (perform (ContainerInspectCall (Container_ID c)) w))
         | Inr containerInfo \<Rightarrow>
             if IsAzureAgentContainer containerInfo then
               (if length (Container_ID c) < 12
                then (Panic SliceBoundsOutOfRange,
                      perform (ContainerInspectCall (Container_ID c)) w)
                else agentsLoop m cs (agents @ [runningEvent c (Clock w (Reads w))])
                       ((perform (ContainerInspectCall (Container_ID c)) w)
                          \<lparr>Reads := Suc (Reads w)\<rparr>))
             else agentsLoop m cs agents (perform (ContainerInspectCall (Container_ID c)) w)))"
proof (cases "Container_Names c")
  case Nil
  then show ?thesis by simp
next
  case (Cons n0 rest)
  then have name: "displayName c = TrimPrefix n0 ''/''"
    by (simp add: displayName_def)
  obtain r w1 where e: "isExcluded m (Container_ID c) (TrimPrefix n0 ''/'') (Container_Image c) w
      = (r, w1)"
    by (cases "isExcluded m (Container_ID c) (TrimPrefix n0 ''/'') (Container_Image c) w")
  have r: "r = (if spec_excluded m (Container_ID c) (TrimPrefix n0 ''/'') (Container_Image c)
      then (if 12 \<le> length (Container_ID c) then Return True else Panic SliceBoundsOutOfRange)
      else Return False)"
    using isExcluded_fst [of m "Container_ID c" "TrimPrefix n0 ''/''" "Container_Image c" w] e
    by simp
  show ?thesis
  proof (cases "spec_excluded m (Container_ID c) (TrimPrefix n0 ''/'') (Container_Image c)")
    case True
    then show ?thesis
      using Cons name e r by (simp add: Let_def)
  next
    case False
    then have "w1 = w"
      using isExcluded_False [of m "Container_ID c" "TrimPrefix n0 ''/''" "Container_Image c" w]
        e r by simp
    then show ?thesis
      using Cons name e r False
      by (simp add: Let_def slice12_def timeNow_def perform_def runningEvent_def
          split: sum.splits)
  qed
qed

lemma agentsLoop_Return:
  "agentsLoop m cs agents w = (Return agents', w') \<Longrightarrow>
     agents' = agents @ map (\<lambda>(c, k). runningEvent c (Clock w k))
                 (zip (filter (tracked m) cs)
                      [Reads w ..< Reads w + length (filter (tracked m) cs)])
     \<and> (\<forall>c \<in> set cs. \<not> panics_on m c)
     \<and> (\<exists>pre. list_all isInventoryEffect pre
           \<and> w' = w\<lparr>Trace := Trace w @ pre,
                     Reads := Reads w + length (filter (tracked m) cs)\<rparr>)"
proof (induction cs arbitrary: agents w)
  case Nil
  have "\<exists>pre. list_all isInventoryEffect pre
      \<and> w = w\<lparr>Trace := Trace w @ pre, Reads := Reads w + 0\<rparr>"
    by (rule exI [of _ "[]"]) simp
  then show ?case using Nil by simp
next
  case (Cons c cs)
  let ?n = "length (filter (tracked m) cs)"
  have names: "Container_Names c \<noteq> []"
    using Cons.prems by (auto simp: agentsLoop_Cons simp del: agentsLoop.simps)
  show ?case
  proof (cases "spec_excluded m (Container_ID c) (displayName c) (Container_Image c)")
    case True
    let ?w1 = "snd (isExcluded m (Container_ID c) (displayName c) (Container_Image c) w)"
    have len: "\<not> length (Container_ID c) < 12"
      using Cons.prems True names
      by (auto simp: agentsLoop_Cons simp del: agentsLoop.simps split: if_splits)
    then have rec: "agentsLoop m cs agents ?w1 = (Return agents', w')"
      using Cons.prems True names
      by (auto simp: agentsLoop_Cons simp del: agentsLoop.simps split: if_splits)
    obtain pre1 where pre1: "list_all isInventoryEffect pre1" "?w1 = w\<lparr>Trace := Trace w @ pre1\<rparr>"
      using isExcluded_world by blast
    from Cons.IH [OF rec] obtain pre where
      a: "agents' = agents @ map (\<lambda>(c, k). runningEvent c (Clock ?w1 k))
            (zip (filter (tracked m) cs) [Reads ?w1 ..< Reads ?w1 + ?n])"
      and p: "\<forall>c \<in> set cs. \<not> panics_on m c"
      and b: "list_all isInventoryEffect pre"
      and c: "w' = ?w1\<lparr>Trace := Trace ?w1 @ pre, Reads := Reads ?w1 + ?n\<rparr>"
      by blast
    have nt: "\<not> tracked m c" using True by (simp add: tracked_def)
    have "list_all isInventoryEffect (pre1 @ pre)
        \<and> w' = w\<lparr>Trace := Trace w @ (pre1 @ pre), Reads := Reads w + ?n\<rparr>"
      using b c pre1 by simp
    then have "\<exists>pre. list_all isInventoryEffect pre
        \<and> w' = w\<lparr>Trace := Trace w @ pre, Reads := Reads w + ?n\<rparr>"
      by blast
    moreover have "\<not> panics_on m c"
      using names len by (simp add: panics_on_def)
    ultimately show ?thesis
      using a p nt pre1 by simp
  next
    case False
    let ?w2 = "perform (ContainerInspectCall (Container_ID c)) w"
    show ?thesis
    proof (cases "ContainerInspect (dockerClient m) (Container_ID c)")
      case (Inl err)
      let ?w3 = "logPrintf (WarningFailedToInspect (Container_ID c) err) ?w2"
      have rec: "agentsLoop m cs agents ?w3 = (Return agents', w')"
        using Cons.prems False names Inl
        by (auto simp: agentsLoop_Cons simp del: agentsLoop.simps)
      from Cons.IH [OF rec] obtain pre where
        a: "agents' = agents @ map (\<lambda>(c, k). runningEvent c (Clock ?w3 k))
              (zip (filter (tracked m) cs) [Reads ?w3 ..< Reads ?w3 + ?n])"
        and p: "\<forall>c \<in> set cs. \<not> panics_on m c"
        and b: "list_all isInventoryEffect pre"
        and c: "w' = ?w3\<lparr>Trace := Trace ?w3 @ pre, Reads := Reads ?w3 + ?n\<rparr>"
        by blast
      have nt: "\<not> tracked m c" using Inl by (simp add: tracked_def classified_def)
      have "list_all isInventoryEffect
              ([ContainerInspectCall (Container_ID c),
                Log (WarningFailedToInspect (Container_ID c) err)] @ pre)
          \<and> w' = w\<lparr>Trace := Trace w @ ([ContainerInspectCall (Container_ID c),
                Log (WarningFailedToInspect (Container_ID c) err)] @ pre),
              Reads := Reads w + ?n\<rparr>"
        using b c by (simp add: logPrintf_def perform_def)
      then have "\<exists>pre. list_all isInventoryEffect pre
          \<and> w' = w\<lparr>Trace := Trace w @ pre, Reads := Reads w + ?n\<rparr>"
        by blast
      moreover have "\<not> panics_on m c"
        using names False Inl by (simp add: panics_on_def classified_def)
      ultimately show ?thesis
        using a p nt by (simp add: logPrintf_def perform_def)
    next
      case (Inr containerInfo)
      show ?thesis
      proof (cases "IsAzureAgentContainer containerInfo")
        case True
        let ?w3 = "?w2\<lparr>Reads := Suc (Reads w)\<rparr>"
        have len: "\<not> length (Container_ID c) < 12"
          using Cons.prems False names Inr True
          by (auto simp: agentsLoop_Cons simp del: agentsLoop.simps split: if_splits)
        then have rec: "agentsLoop m cs (agents @ [runningEvent c (Clock w (Reads w))]) ?w3
            = (Return agents', w')"
          using Cons.prems False names Inr True
          by (auto simp: agentsLoop_Cons simp del: agentsLoop.simps)
        from Cons.IH [OF rec] obtain pre where
          a: "agents' = (agents @ [runningEvent c (Clock w (Reads w))])
                @ map (\<lambda>(c, k). runningEvent c (Clock ?w3 k))
                    (zip (filter (tracked m) cs) [Reads ?w3 ..< Reads ?w3 + ?n])"
          and p: "\<forall>c \<in> set cs. \<not> panics_on m c"
          and b: "list_all isInventoryEffect pre"
          and c: "w' = ?w3\<lparr>Trace := Trace ?w3 @ pre, Reads := Reads ?w3 + ?n\<rparr>"
          by blast
        have t: "tracked m c" using False Inr True by (simp add: tracked_def classified_def)
        have upt: "[Reads w ..< Reads w + Suc ?n] = Reads w # [Suc (Reads w) ..< Suc (Reads w) + ?n]"
          by (simp add: upt_rec)
        have "list_all isInventoryEffect ([ContainerInspectCall (Container_ID c)] @ pre)
            \<and> w' = w\<lparr>Trace := Trace w @ ([ContainerInspectCall (Container_ID c)] @ pre),
                Reads := Reads w + Suc ?n\<rparr>"
          using b c by (simp add: perform_def)
        then have "\<exists>pre. list_all isInventoryEffect pre
            \<and> w' = w\<lparr>Trace := Trace w @ pre, Reads := Reads w + Suc ?n\<rparr>"
          by blast
        moreover have "\<not> panics_on m c"
          using names len by (simp add: panics_on_def)
        ultimately show ?thesis
          using a p t upt by (simp add: perform_def)
      next
        case nc: False
        have rec: "agentsLoop m cs agents ?w2 = (Return agents', w')"
          using Cons.prems False names Inr nc
          by (auto simp: agentsLoop_Cons simp del: agentsLoop.simps)
        from Cons.IH [OF rec] obtain pre where
          a: "agents' = agents @ map (\<lambda>(c, k). runningEvent c (Clock ?w2 k))
                (zip (filter (tracked m) cs) [Reads ?w2 ..< Reads ?w2 + ?n])"
          and p: "\<forall>c \<in> set cs. \<not> panics_on m c"
          and b: "list_all isInventoryEffect pre"
          and c: "w' = ?w2\<lparr>Trace := Trace ?w2 @ pre, Reads := Reads ?w2 + ?n\<rparr>"
          by blast
        have nt: "\<not> tracked m c" using Inr nc by (simp add: tracked_def classified_def)
        have "list_all isInventoryEffect ([ContainerInspectCall (Container_ID c)] @ pre)
            \<and> w' = w\<lparr>Trace := Trace w @ ([ContainerInspectCall (Container_ID c)] @ pre),
                Reads := Reads w + ?n\<rparr>"
          using b c by (simp add: perform_def)
        then have "\<exists>pre. list_all isInventoryEffect pre
            \<and> w' = w\<lparr>Trace := Trace w @ pre, Reads := Reads w + ?n\<rparr>"
          by blast
        moreover have "\<not> panics_on m c"
          using names False Inr nc by (simp add: panics_on_def classified_def)
        ultimately show ?thesis
          using a p nt by (simp add: perform_def)
      qed
    qed
  qed
qed

lemma list_all_not_channel:
  "list_all isInventoryEffect pre \<Longrightarrow> list_all (\<lambda>e. \<not> isChannelOrStreamEffect e) pre"
proof (induction pre)
  case Nil
  then show ?case by simp
next
  case (Cons e pre)
  then show ?case by (cases e) auto
qed

lemma agentsLoop_outcome:
  "fst (agentsLoop m cs agents w) \<noteq> Blocked
   \<and> ((\<exists>agents'. fst (agentsLoop m cs agents w) = Return agents')
        = (\<forall>c \<in> set cs. \<not> panics_on m c))"
proof (induction cs arbitrary: agents w)
  case Nil
  then show ?case by simp
next
  case (Cons c cs)
  show ?case
    unfolding agentsLoop_Cons
    using Cons.IH
    by (auto simp: panics_on_def classified_def split: sum.splits)
qed

lemma agentsLoop_frame:
  "activityChan (snd (agentsLoop m cs agents w)) = activityChan w
   \<and> Clock (snd (agentsLoop m cs agents w)) = Clock w"
proof (induction cs arbitrary: agents w)
  case Nil
  then show ?case by simp
next
  case (Cons c cs)
  obtain pre where pre:
    "snd (isExcluded m (Container_ID c) (displayName c) (Container_Image c) w)
       = w\<lparr>Trace := Trace w @ pre\<rparr>"
    using isExcluded_world by blast
  show ?case
    unfolding agentsLoop_Cons
    using Cons.IH pre
    by (auto simp: perform_def logPrintf_def split: sum.splits)
qed

lemma sendAll_world:
  "\<exists>k \<le> length evs.
     snd (sendAll evs w)
       = w\<lparr>activityChan := (activityChan w)\<lparr>Buf := Buf (activityChan w) @ take k evs\<rparr>,
            Trace := Trace w @ map Send (take k evs)\<rparr>
     \<and> (fst (sendAll evs w) = Return () \<longrightarrow> k = length evs)"
proof (induction evs arbitrary: w)
  case Nil
  then show ?case by simp
next
  case (Cons ev evs)
  show ?case
  proof (cases "fst (chanSend ev w) = Return ()")
    case True
    let ?w1 = "w\<lparr>activityChan := (activityChan w)\<lparr>Buf := Buf (activityChan w) @ [ev]\<rparr>,
                  Trace := Trace w @ [Send ev]\<rparr>"
    have s: "chanSend ev w = (Return (), ?w1)"
      using True by (auto simp: chanSend_def perform_def split: if_splits)
    obtain k where k: "k \<le> length evs"
      "snd (sendAll evs ?w1)
         = ?w1\<lparr>activityChan := (activityChan ?w1)\<lparr>Buf := Buf (activityChan ?w1) @ take k evs\<rparr>,
                Trace := Trace ?w1 @ map Send (take k evs)\<rparr>"
      "fst (sendAll evs ?w1) = Return () \<longrightarrow> k = length evs"
      using Cons.IH [of ?w1] by blast
    have "Suc k \<le> length (ev # evs)
      \<and> snd (sendAll (ev # evs) w)
          = w\<lparr>activityChan := (activityChan w)\<lparr>Buf := Buf (activityChan w) @ take (Suc k) (ev # evs)\<rparr>,
               Trace := Trace w @ map Send (take (Suc k) (ev # evs))\<rparr>
      \<and> (fst (sendAll (ev # evs) w) = Return () \<longrightarrow> Suc k = length (ev # evs))"
      using s k by simp
    then show ?thesis by blast
  next
    case False
    then have "0 \<le> length (ev # evs)
      \<and> snd (sendAll (ev # evs) w)
          = w\<lparr>activityChan := (activityChan w)\<lparr>Buf := Buf (activityChan w) @ take 0 (ev # evs)\<rparr>,
               Trace := Trace w @ map Send (take 0 (ev # evs))\<rparr>
      \<and> (fst (sendAll (ev # evs) w) = Return () \<longrightarrow> 0 = length (ev # evs))"
      by (auto simp: chanSend_def split: if_splits)
    then show ?thesis by blast
  qed
qed

lemma GetRunningAzureAgents_Inl:
  "ContainerList (dockerClient m) = Inl err \<Longrightarrow>
     GetRunningAzureAgents m w
       = (Return (Inl (Wrap ''failed to list containers'' err)), perform ContainerListCall w)"
  by (simp add: GetRunningAzureAgents_def)

lemma GetRunningAzureAgents_Inr:
  "ContainerList (dockerClient m) = Inr containers \<Longrightarrow>
     GetRunningAzureAgents m w
       = (case agentsLoop m containers [] (perform ContainerListCall w) of
            (Return agents, w1) \<Rightarrow> (Return (Inr agents), w1)
          | (Panic p, w1) \<Rightarrow> (Panic p, w1)
          | (Blocked, w1) \<Rightarrow> (Blocked, w1))"
  by (simp add: GetRunningAzureAgents_def)

lemma GetRunningAzureAgents_Return:
  assumes "ContainerList (dockerClient m) = Inr containers"
    and "GetRunningAzureAgents m w = (Return r, w')"
  shows "r = Inr (inventoryEvents m containers w)
     \<and> (\<forall>c \<in> set containers. \<not> panics_on m c)
     \<and> (\<exists>pre. list_all isInventoryEffect pre
           \<and> w' = w\<lparr>Trace := Trace w @ ContainerListCall # pre,
                     Reads := Reads w + length (filter (tracked m) containers)\<rparr>)"
proof -
  let ?w0 = "perform ContainerListCall w"
  obtain agents where a: "agentsLoop m containers [] ?w0 = (Return agents, w')" "r = Inr agents"
    using assms
    by (auto simp: GetRunningAzureAgents_Inr split: prod.splits outcome.splits)
  from agentsLoop_Return [OF a(1)] obtain pre where
    b: "agents = inventoryEvents m containers ?w0"
    and p: "\<forall>c \<in> set containers. \<not> panics_on m c"
    and c: "list_all isInventoryEffect pre"
    and d: "w' = ?w0\<lparr>Trace := Trace ?w0 @ pre,
                     Reads := Reads ?w0 + length (filter (tracked m) containers)\<rparr>"
    by (auto simp: inventoryEvents_def)
  have "list_all isInventoryEffect pre
      \<and> w' = w\<lparr>Trace := Trace w @ ContainerListCall # pre,
                Reads := Reads w + length (filter (tracked m) containers)\<rparr>"
    using c d by (simp add: perform_def)
  then have "\<exists>pre. list_all isInventoryEffect pre
      \<and> w' = w\<lparr>Trace := Trace w @ ContainerListCall # pre,
                Reads := Reads w + length (filter (tracked m) containers)\<rparr>"
    by blast
  moreover have "inventoryEvents m containers ?w0 = inventoryEvents m containers w"
    by (simp add: inventoryEvents_def perform_def)
  ultimately show ?thesis
    using a b p by simp
qed

lemma inventoryEvents_fields:
  "map (\<lambda>ev. (ContainerID ev, ContainerName ev, ImageName ev, Action ev, IsAzureAgent ev))
     (inventoryEvents m containers w)
   = map (\<lambda>c. (take 12 (Container_ID c), displayName c, Container_Image c, ''running'', True))
       (filter (tracked m) containers)"
proof -
  have "length cs = length ks \<Longrightarrow>
        map (\<lambda>ev. (ContainerID ev, ContainerName ev, ImageName ev, Action ev, IsAzureAgent ev))
          (map (\<lambda>(c, k). runningEvent c (Clock w k)) (zip cs ks))
        = map (\<lambda>c. (take 12 (Container_ID c), displayName c, Container_Image c, ''running'', True))
            cs" for cs :: "Container list" and ks :: "nat list"
    by (induction cs ks rule: list_induct2) (auto simp: runningEvent_def)
  then show ?thesis
    by (simp add: inventoryEvents_def)
qed

lemma inventoryEvents_Timestamp:
  "map Timestamp (inventoryEvents m containers w)
   = map (Clock w) [Reads w ..< Reads w + length (filter (tracked m) containers)]"
proof -
  have "length cs = length ks \<Longrightarrow>
        map Timestamp (map (\<lambda>(c, k). runningEvent c (Clock w k)) (zip cs ks))
        = map (Clock w) ks" for cs :: "Container list" and ks :: "nat list"
    by (induction cs ks rule: list_induct2) (auto simp: runningEvent_def)
  then show ?thesis
    by (simp add: inventoryEvents_def)
qed

lemma StartMonitoring_Return_None:
  assumes "fst (StartMonitoring m w) = Return None"
  shows "\<exists>containers pre.
      ContainerList (dockerClient m) = Inr containers
    \<and> (\<forall>c \<in> set containers. \<not> panics_on m c)
    \<and> list_all isInventoryEffect pre
    \<and> snd (StartMonitoring m w) =
        w\<lparr>Trace := Trace w @ ContainerListCall # pre
               @ [Log (FoundAgents (length (inventoryEvents m containers w)))]
               @ map Send (inventoryEvents m containers w)
               @ [EventsCall
                    (Sec (Clock w (Reads w + length (filter (tracked m) containers))) - 60),
                  Go_eventLoop],
           Reads := Suc (Reads w + length (filter (tracked m) containers)),
           activityChan := (activityChan w)
             \<lparr>Buf := Buf (activityChan w) @ inventoryEvents m containers w\<rparr>\<rparr>"
proof -
  obtain r w1 where g: "GetRunningAzureAgents m w = (Return r, w1)"
    using assms
    by (auto simp: StartMonitoring_def split: prod.splits outcome.splits)
  obtain containers where l: "ContainerList (dockerClient m) = Inr containers"
    using assms g
    by (cases "ContainerList (dockerClient m)")
       (auto simp: StartMonitoring_def GetRunningAzureAgents_Inl)
  let ?evs = "inventoryEvents m containers w"
  let ?n = "length (filter (tracked m) containers)"
  from GetRunningAzureAgents_Return [OF l g] obtain pre where
    r: "r = Inr ?evs"
    and p: "\<forall>c \<in> set containers. \<not> panics_on m c"
    and pre: "list_all isInventoryEffect pre"
    and w1: "w1 = w\<lparr>Trace := Trace w @ ContainerListCall # pre, Reads := Reads w + ?n\<rparr>"
    by blast
  let ?w2 = "logPrintf (FoundAgents (length ?evs)) w1"
  have s: "fst (sendAll ?evs ?w2) = Return ()"
    using assms g r
    by (auto simp: StartMonitoring_def Let_def split: prod.splits outcome.splits)
  obtain k where k: "snd (sendAll ?evs ?w2)
       = ?w2\<lparr>activityChan := (activityChan ?w2)\<lparr>Buf := Buf (activityChan ?w2) @ take k ?evs\<rparr>,
              Trace := Trace ?w2 @ map Send (take k ?evs)\<rparr>"
    "k = length ?evs"
    using sendAll_world [of ?evs ?w2] s by blast
  have "snd (StartMonitoring m w) =
      perform Go_eventLoop
        (perform (EventsCall (Sec (fst (timeNow (snd (sendAll ?evs ?w2)))) - 60))
           (snd (timeNow (snd (sendAll ?evs ?w2)))))"
    using g r s
    by (auto simp: StartMonitoring_def Let_def split: prod.splits outcome.splits)
  then have "snd (StartMonitoring m w) =
        w\<lparr>Trace := Trace w @ ContainerListCall # pre
               @ [Log (FoundAgents (length ?evs))] @ map Send ?evs
               @ [EventsCall (Sec (Clock w (Reads w + ?n)) - 60), Go_eventLoop],
           Reads := Suc (Reads w + ?n),
           activityChan := (activityChan w)\<lparr>Buf := Buf (activityChan w) @ ?evs\<rparr>\<rparr>"
    using k w1 by (simp add: timeNow_def perform_def logPrintf_def)
  then show ?thesis
    using l p pre by blast
qed

section \<open>Facts about the handling of a live event\<close>

lemma isInteresting_allowList: "isInteresting a = (a \<in> allowList)"
  by (auto simp: isInteresting_def interestingActions_def allowList_def)

text \<open>The body of the handler, with the filter and the classifier replaced by what
  they compute.\<close>

lemma handleDockerEvent_body_cases:
  "handleDockerEvent_body m event w =
     (if Message_Type event \<noteq> ''container'' \<or> Message_Action event \<notin> allowList
      then (Return None, w)
      else
        (case ContainerInspect (dockerClient m) (Actor_ID (Message_Actor event)) of
           Inl err \<Rightarrow>
             if length (Actor_ID (Message_Actor event)) < 12
             then (Panic SliceBoundsOutOfRange,
                   perform (ContainerInspectCall (Actor_ID (Message_Actor event))) w)
             else (Return None,
                   logPrintf
                     (if Message_Action event \<in> terminalActions
                      then AlreadyRemoved (take 12 (Actor_ID (Message_Actor event)))
                      else FailedToInspect (take 12 (Actor_ID (Message_Actor event))) err)
                     (perform (ContainerInspectCall (Actor_ID (Message_Actor event))) w))
         | Inr containerInfo \<Rightarrow>
             if spec_excluded m (Actor_ID (Message_Actor event)) (eventName event)
                  (eventImage event)
             then (if length (Actor_ID (Message_Actor event)) < 12
                   then Panic SliceBoundsOutOfRange else Return None,
                   snd (isExcluded m (Actor_ID (Message_Actor event)) (eventName event)
                          (eventImage event)
                          (perform (ContainerInspectCall (Actor_ID (Message_Actor event))) w)))
             else if \<not> IsAzureAgentContainer containerInfo
             then (Return None, perform (ContainerInspectCall (Actor_ID (Message_Actor event))) w)
             else if length (Actor_ID (Message_Actor event)) < 12
             then (Panic SliceBoundsOutOfRange,
                   perform (ContainerInspectCall (Actor_ID (Message_Actor event))) w)
             else (Return (Some (liveEvent event)),
                   logPrintf
                     (AzureAgentActivity (Message_Action event) (eventName event)
                        (take 12 (Actor_ID (Message_Actor event))))
                     (perform (ContainerInspectCall (Actor_ID (Message_Actor event))) w))))"
proof -
  let ?id = "Actor_ID (Message_Actor event)"
  let ?w1 = "perform (ContainerInspectCall ?id) w"
  obtain r w2 where e: "isExcluded m ?id (eventName event) (eventImage event) ?w1 = (r, w2)"
    by (cases "isExcluded m ?id (eventName event) (eventImage event) ?w1")
  have r: "r = (if spec_excluded m ?id (eventName event) (eventImage event)
      then (if 12 \<le> length ?id then Return True else Panic SliceBoundsOutOfRange)
      else Return False)"
    using isExcluded_fst [of m ?id "eventName event" "eventImage event" ?w1] e by simp
  have w2: "\<not> spec_excluded m ?id (eventName event) (eventImage event) \<Longrightarrow> w2 = ?w1"
    using isExcluded_False [of m ?id "eventName event" "eventImage event" ?w1] e r by simp
  show ?thesis
  proof (cases "ContainerInspect (dockerClient m) ?id")
    case (Inl err)
    then show ?thesis
      by (simp add: handleDockerEvent_body_def ContainerEventType_def isInteresting_allowList
          Let_def slice12_def terminalActions_def)
  next
    case (Inr containerInfo)
    show ?thesis
    proof (cases "spec_excluded m ?id (eventName event) (eventImage event)")
      case True
      then show ?thesis
        using Inr e r
        by (simp add: handleDockerEvent_body_def ContainerEventType_def isInteresting_allowList
            Let_def eventName_def [symmetric] eventImage_def [symmetric])
    next
      case False
      then show ?thesis
        using Inr e r w2
        by (simp add: handleDockerEvent_body_def ContainerEventType_def isInteresting_allowList
            Let_def slice12_def liveEvent_def eventName_def [symmetric]
            eventImage_def [symmetric])
    qed
  qed
qed

lemma handleDockerEvent_ignored:
  "Message_Type event \<noteq> ''container'' \<or> Message_Action event \<notin> allowList \<Longrightarrow>
     handleDockerEvent m event w = (Return (), w)"
  by (simp add: handleDockerEvent_def handleDockerEvent_body_cases)

lemma handleDockerEvent_body_Some:
  "fst (handleDockerEvent_body m event w) = Return (Some ae) \<Longrightarrow>
     ae = liveEvent event \<and> passes m event \<and> 12 \<le> length (Actor_ID (Message_Actor event))
     \<and> snd (handleDockerEvent_body m event w)
         = logPrintf
             (AzureAgentActivity (Message_Action event) (eventName event)
                (take 12 (Actor_ID (Message_Actor event))))
             (perform (ContainerInspectCall (Actor_ID (Message_Actor event))) w)"
  by (auto simp: handleDockerEvent_body_cases passes_def classified_def
      split: if_splits sum.splits)

lemma handleDockerEvent_body_chan:
  "activityChan (snd (handleDockerEvent_body m event w)) = activityChan w"
proof -
  obtain pre where "snd (isExcluded m (Actor_ID (Message_Actor event)) (eventName event)
        (eventImage event) (perform (ContainerInspectCall (Actor_ID (Message_Actor event))) w))
      = (perform (ContainerInspectCall (Actor_ID (Message_Actor event))) w)
          \<lparr>Trace := Trace (perform (ContainerInspectCall (Actor_ID (Message_Actor event))) w) @ pre\<rparr>"
    using isExcluded_world by blast
  then show ?thesis
    by (auto simp: handleDockerEvent_body_cases perform_def logPrintf_def split: sum.splits)
qed

text \<open>What the handler adds to the channel: the live event, when the event passes, its
  identity can be cut, and the channel is open and has room; nothing otherwise.\<close>

lemma handleDockerEvent_Buf:
  "activityChan (snd (handleDockerEvent m event w)) =
     (if passes m event \<and> 12 \<le> length (Actor_ID (Message_Actor event))
         \<and> \<not> Closed (activityChan w) \<and> length (Buf (activityChan w)) < activityChanCap
      then (activityChan w)\<lparr>Buf := Buf (activityChan w) @ [liveEvent event]\<rparr>
      else activityChan w)"
proof (cases "\<exists>ae. fst (handleDockerEvent_body m event w) = Return (Some ae)")
  case True
  then obtain ae where ae: "fst (handleDockerEvent_body m event w) = Return (Some ae)"
    by blast
  note s = handleDockerEvent_body_Some [OF ae]
  have "handleDockerEvent m event w = chanSend (liveEvent event) (snd (handleDockerEvent_body m event w))"
    using ae s by (cases "handleDockerEvent_body m event w") (simp add: handleDockerEvent_def)
  then show ?thesis
    using s by (simp add: chanSend_def perform_def logPrintf_def)
next
  case False
  then have n: "\<not> (passes m event \<and> 12 \<le> length (Actor_ID (Message_Actor event)))"
    by (auto simp: handleDockerEvent_body_cases passes_def classified_def
        split: sum.splits if_splits)
  have "snd (handleDockerEvent m event w) = snd (handleDockerEvent_body m event w)"
    using False
    by (cases "handleDockerEvent_body m event w")
       (auto simp: handleDockerEvent_def split: outcome.splits option.splits)
  then show ?thesis
    using n handleDockerEvent_body_chan [of m event w] by auto
qed

section \<open>Facts about what reaches the channel\<close>

lemma GetRunningAzureAgents_chan:
  "activityChan (snd (GetRunningAzureAgents m w)) = activityChan w"
proof (cases "ContainerList (dockerClient m)")
  case (Inl err)
  then show ?thesis
    by (simp add: GetRunningAzureAgents_Inl perform_def)
next
  case (Inr containers)
  have "snd (GetRunningAzureAgents m w)
      = snd (agentsLoop m containers [] (perform ContainerListCall w))"
    using Inr
    by (auto simp: GetRunningAzureAgents_Inr split: prod.splits outcome.splits)
  then show ?thesis
    using agentsLoop_frame [of m containers "[]" "perform ContainerListCall w"]
    by (simp add: perform_def)
qed

lemma HasActiveAgents_chan:
  "activityChan (snd (HasActiveAgents m w)) = activityChan w"
proof -
  have "snd (HasActiveAgents m w) = snd (GetRunningAzureAgents m w)"
    by (auto simp: HasActiveAgents_def split: prod.splits outcome.splits sum.splits)
  then show ?thesis
    by (simp add: GetRunningAzureAgents_chan)
qed

text \<open>Whatever the outcome of \<open>StartMonitoring\<close>, what it has put on the channel is a
  prefix of the events of the inventory pass.\<close>

lemma StartMonitoring_chan:
  "\<exists>evs. activityChan (snd (StartMonitoring m w))
            = (activityChan w)\<lparr>Buf := Buf (activityChan w) @ evs\<rparr>
     \<and> (evs = []
         \<or> (\<exists>containers k.
               ContainerList (dockerClient m) = Inr containers
             \<and> (\<forall>c \<in> set containers. \<not> panics_on m c)
             \<and> evs = take k (inventoryEvents m containers w)))"
proof -
  obtain r0 w1 where g: "GetRunningAzureAgents m w = (r0, w1)"
    by (cases "GetRunningAzureAgents m w")
  have c1: "activityChan w1 = activityChan w"
    using GetRunningAzureAgents_chan [of m w] g by simp
  have unchanged: "activityChan (snd (StartMonitoring m w)) = activityChan w \<Longrightarrow> ?thesis"
  proof -
    assume "activityChan (snd (StartMonitoring m w)) = activityChan w"
    then have "activityChan (snd (StartMonitoring m w))
            = (activityChan w)\<lparr>Buf := Buf (activityChan w) @ []\<rparr> \<and> ([] :: ActivityEvent list) = []"
      by simp
    then show ?thesis by blast
  qed
  show ?thesis
  proof (cases "\<exists>agents. r0 = Return (Inr agents)")
    case False
    then have "snd (StartMonitoring m w) = w1"
      using g by (auto simp: StartMonitoring_def split: outcome.splits sum.splits)
    then show ?thesis
      using c1 unchanged by simp
  next
    case True
    then obtain agents where r0: "r0 = Return (Inr agents)"
      by blast
    obtain containers where l: "ContainerList (dockerClient m) = Inr containers"
      using g r0
      by (cases "ContainerList (dockerClient m)") (auto simp: GetRunningAzureAgents_Inl)
    from GetRunningAzureAgents_Return [OF l g [unfolded r0]]
    have a: "agents = inventoryEvents m containers w"
      and p: "\<forall>c \<in> set containers. \<not> panics_on m c"
      by auto
    let ?w2 = "logPrintf (FoundAgents (length agents)) w1"
    obtain k where k: "snd (sendAll agents ?w2)
         = ?w2\<lparr>activityChan := (activityChan ?w2)\<lparr>Buf := Buf (activityChan ?w2) @ take k agents\<rparr>,
                Trace := Trace ?w2 @ map Send (take k agents)\<rparr>"
      using sendAll_world [of agents ?w2] by blast
    have "activityChan (snd (StartMonitoring m w)) = activityChan (snd (sendAll agents ?w2))"
      using g r0
      by (auto simp: StartMonitoring_def Let_def timeNow_def perform_def
          split: prod.splits outcome.splits)
    then have "activityChan (snd (StartMonitoring m w))
        = (activityChan w)\<lparr>Buf := Buf (activityChan w) @ take k (inventoryEvents m containers w)\<rparr>"
      using k c1 a by (simp add: logPrintf_def perform_def)
    then show ?thesis
      using l p by blast
  qed
qed

lemma inventoryEvents_take_Timestamp:
  "map Timestamp (take k (inventoryEvents m containers w))
   = map (Clock w) [Reads w ..< Reads w + length (take k (inventoryEvents m containers w))]"
proof -
  let ?n = "length (filter (tracked m) containers)"
  have len: "length (inventoryEvents m containers w) = ?n"
    by (simp add: inventoryEvents_def)
  have "map Timestamp (take k (inventoryEvents m containers w))
      = take k (map Timestamp (inventoryEvents m containers w))"
    by (simp add: take_map)
  also have "\<dots> = take k (map (Clock w) [Reads w ..< Reads w + ?n])"
    by (simp only: inventoryEvents_Timestamp)
  also have "\<dots> = map (Clock w) (take k [Reads w ..< Reads w + ?n])"
    by (simp add: take_map)
  also have "take k [Reads w ..< Reads w + ?n] = [Reads w ..< Reads w + min k ?n]"
  proof (cases "k \<le> ?n")
    case True
    then show ?thesis by (simp add: min_def)
  next
    case False
    then show ?thesis by (simp add: min_def)
  qed
  finally show ?thesis
    using len by (simp add: min.commute)
qed

lemma inventoryEvents_member:
  assumes "ae \<in> set (take k (inventoryEvents m containers w))"
  shows "\<exists>c t. c \<in> set containers \<and> tracked m c \<and> ae = runningEvent c t"
proof -
  have "ae \<in> set (inventoryEvents m containers w)"
    using assms by (rule in_set_takeD)
  then obtain c n where "(c, n) \<in> set (zip (filter (tracked m) containers)
        [Reads w ..< Reads w + length (filter (tracked m) containers)])"
    and ae: "ae = runningEvent c (Clock w n)"
    by (auto simp: inventoryEvents_def)
  then have "c \<in> set (filter (tracked m) containers)"
    by (meson set_zip_leftD)
  then show ?thesis
    using ae by auto
qed

lemma agentsLoop_slice_panic:
  "(\<forall>c \<in> set cs. Container_Names c \<noteq> []) \<Longrightarrow> (\<exists>c \<in> set cs. panics_on m c) \<Longrightarrow>
     fst (agentsLoop m cs agents w) = Panic SliceBoundsOutOfRange"
proof (induction cs arbitrary: agents w)
  case Nil
  then show ?case by simp
next
  case (Cons c cs)
  show ?case
  proof (cases "panics_on m c")
    case True
    then show ?thesis
      using Cons.prems(1)
      by (auto simp: agentsLoop_Cons panics_on_def classified_def
          simp del: agentsLoop.simps split: sum.splits)
  next
    case False
    then have "\<exists>c \<in> set cs. panics_on m c"
      using Cons.prems(2) by simp
    then have "fst (agentsLoop m cs agents' w') = Panic SliceBoundsOutOfRange" for agents' w'
      using Cons.IH Cons.prems(1) by simp
    then show ?thesis
      using False Cons.prems(1)
      by (auto simp: agentsLoop_Cons panics_on_def classified_def
          simp del: agentsLoop.simps split: sum.splits)
  qed
qed

lemma handleDockerEvent_adds:
  "activityChan (snd (handleDockerEvent m event w)) = activityChan w
   \<or> (activityChan (snd (handleDockerEvent m event w))
         = (activityChan w)\<lparr>Buf := Buf (activityChan w) @ [liveEvent event]\<rparr>
       \<and> 12 \<le> length (Actor_ID (Message_Actor event)) \<and> passes m event)"
  by (simp add: handleDockerEvent_Buf)

lemma handleDockerEvent_fst:
  "fst (handleDockerEvent m event w) =
     (case fst (handleDockerEvent_body m event w) of
        Panic p \<Rightarrow> Panic p
      | Blocked \<Rightarrow> Blocked
      | Return None \<Rightarrow> Return ()
      | Return (Some ae) \<Rightarrow> fst (chanSend ae (snd (handleDockerEvent_body m event w))))"
  by (cases "handleDockerEvent_body m event w")
     (auto simp: handleDockerEvent_def split: outcome.splits option.splits)

section \<open>Facts about the heartbeat\<close>

lemma HasActiveAgents_Inl:
  "ContainerList (dockerClient m) = Inl err \<Longrightarrow>
     HasActiveAgents m w
       = (Return (Inl (Wrap ''failed to list containers'' err)), perform ContainerListCall w)"
  by (simp add: HasActiveAgents_def GetRunningAzureAgents_Inl)

lemma HasActiveAgents_Inr:
  assumes "ContainerList (dockerClient m) = Inr containers"
    and "\<forall>c \<in> set containers. \<not> panics_on m c"
  shows "fst (HasActiveAgents m w) = Return (Inr (filter (tracked m) containers \<noteq> []))
    \<and> (\<exists>pre. list_all isInventoryEffect pre
          \<and> snd (HasActiveAgents m w)
              = w\<lparr>Trace := Trace w @ ContainerListCall # pre,
                   Reads := Reads w + length (filter (tracked m) containers)\<rparr>)"
proof -
  obtain agents where "fst (agentsLoop m containers [] (perform ContainerListCall w)) = Return agents"
    using assms(2) agentsLoop_outcome [of m containers "[]" "perform ContainerListCall w"] by blast
  then obtain w' where g: "GetRunningAzureAgents m w = (Return (Inr agents), w')"
    using assms(1)
    by (cases "agentsLoop m containers [] (perform ContainerListCall w)")
       (simp add: GetRunningAzureAgents_Inr)
  from GetRunningAzureAgents_Return [OF assms(1) g] obtain pre where
    a: "agents = inventoryEvents m containers w"
    and pre: "list_all isInventoryEffect pre"
    and w': "w' = w\<lparr>Trace := Trace w @ ContainerListCall # pre,
                     Reads := Reads w + length (filter (tracked m) containers)\<rparr>"
    by auto
  have "length agents = length (filter (tracked m) containers)"
    using a by (simp add: inventoryEvents_def)
  then have "HasActiveAgents m w = (Return (Inr (filter (tracked m) containers \<noteq> [])), w')"
    using g by (simp add: HasActiveAgents_def)
  then show ?thesis
    using pre w' by auto
qed

lemma HasActiveAgents_returns:
  assumes "tickReturns monitor d"
  shows "\<exists>x. fst (HasActiveAgents (monitor\<lparr>dockerClient := d\<rparr>) w) = Return x"
proof (cases "ContainerList d")
  case (Inl err)
  then show ?thesis
    by (simp add: HasActiveAgents_Inl)
next
  case (Inr containers)
  then have "\<forall>c \<in> set containers. \<not> panics_on (monitor\<lparr>dockerClient := d\<rparr>) c"
    using assms by (simp add: tickReturns_def)
  then show ?thesis
    using HasActiveAgents_Inr [of "monitor\<lparr>dockerClient := d\<rparr>" containers w] Inr by simp
qed

lemma heartbeatLoop_tick:
  assumes "tickReturns monitor d"
  shows "heartbeatLoop n monitor (TickerC d # rest) w
    = heartbeatLoop n monitor rest (tick n monitor w d)"
proof -
  obtain x where "fst (HasActiveAgents (monitor\<lparr>dockerClient := d\<rparr>) w) = Return x"
    using HasActiveAgents_returns [OF assms] by blast
  then obtain w1 where h: "HasActiveAgents (monitor\<lparr>dockerClient := d\<rparr>) w = (Return x, w1)"
    by (cases "HasActiveAgents (monitor\<lparr>dockerClient := d\<rparr>) w") simp
  show ?thesis
  proof (cases x)
    case (Inl err)
    then show ?thesis
      using h by (simp add: tick_def)
  next
    case (Inr hasActivity)
    then show ?thesis
      using h
      by (cases "SendActivitySignal n hasActivity w1")
         (auto simp: tick_def split: option.splits)
  qed
qed

lemma heartbeatLoop_ticks:
  "\<forall>d \<in> set ds. tickReturns monitor d \<Longrightarrow>
     heartbeatLoop n monitor (map TickerC ds @ selects) w
       = heartbeatLoop n monitor selects (foldl (tick n monitor) w ds)"
proof (induction ds arbitrary: w)
  case Nil
  then show ?case by simp
next
  case (Cons d ds)
  then show ?case
    by (simp add: heartbeatLoop_tick del: heartbeatLoop.simps)
qed

lemma heartbeatLoop_Return:
  "fst (heartbeatLoop n monitor selects w) = Return u \<Longrightarrow> StopChan \<in> set selects"
proof (induction selects arbitrary: w)
  case Nil
  then show ?case by simp
next
  case (Cons sel rest)
  show ?case
  proof (cases sel)
    case StopChan
    then show ?thesis by simp
  next
    case (TickerC d)
    have "\<exists>w'. fst (heartbeatLoop n monitor rest w') = Return u"
      using Cons.prems TickerC
      by (auto split: prod.splits outcome.splits sum.splits option.splits)
    then show ?thesis
      using Cons.IH by auto
  qed
qed

lemma tick_Inl:
  "ContainerList d = Inl err \<Longrightarrow>
     tick n monitor w d
       = logPrintf (ErrorCheckingAgents (Wrap ''failed to list containers'' err))
           (perform ContainerListCall w)"
  by (simp add: tick_def HasActiveAgents_Inl)

lemma tick_Inr:
  assumes "ContainerList d = Inr containers" and "tickReturns monitor d"
  shows "tick n monitor w d =
     (case SendActivitySignal n
             (filter (tracked (monitor\<lparr>dockerClient := d\<rparr>)) containers \<noteq> [])
             (snd (HasActiveAgents (monitor\<lparr>dockerClient := d\<rparr>) w)) of
        (None, w2) \<Rightarrow> w2
      | (Some err, w2) \<Rightarrow> logPrintf (ErrorSendingSignal err) w2)"
proof -
  have "\<forall>c \<in> set containers. \<not> panics_on (monitor\<lparr>dockerClient := d\<rparr>) c"
    using assms by (simp add: tickReturns_def)
  then have "fst (HasActiveAgents (monitor\<lparr>dockerClient := d\<rparr>) w)
      = Return (Inr (filter (tracked (monitor\<lparr>dockerClient := d\<rparr>)) containers \<noteq> []))"
    using HasActiveAgents_Inr [of "monitor\<lparr>dockerClient := d\<rparr>" containers w] assms(1) by simp
  then show ?thesis
    by (cases "HasActiveAgents (monitor\<lparr>dockerClient := d\<rparr>) w") (simp add: tick_def)
qed

lemma SendActivitySignal_Trace:
  "\<exists>post. Trace (snd (SendActivitySignal n hasActivity w)) = Trace w @ post
     \<and> filter isListCall post = []"
  by (auto simp: SendActivitySignal_def timeNow_def perform_def logPrintf_def Let_def
      split: option.splits)

lemma filter_isListCall_inventory:
  "list_all isInventoryEffect pre \<Longrightarrow> filter isListCall pre = []"
proof (induction pre)
  case Nil
  then show ?case by simp
next
  case (Cons e pre)
  then show ?case by (cases e) auto
qed

text \<open>A tick in which the snapshot query returns makes exactly one list request.\<close>

lemma tick_one_query:
  assumes "tickReturns monitor d"
  shows "filter isListCall (Trace (tick n monitor w d))
    = filter isListCall (Trace w) @ [ContainerListCall]"
proof (cases "ContainerList d")
  case (Inl err)
  then show ?thesis
    by (simp add: tick_Inl logPrintf_def perform_def)
next
  case (Inr containers)
  let ?m = "monitor\<lparr>dockerClient := d\<rparr>"
  have "\<forall>c \<in> set containers. \<not> panics_on ?m c"
    using assms Inr by (simp add: tickReturns_def)
  then obtain pre where pre: "list_all isInventoryEffect pre"
    "snd (HasActiveAgents ?m w)
       = w\<lparr>Trace := Trace w @ ContainerListCall # pre,
            Reads := Reads w + length (filter (tracked ?m) containers)\<rparr>"
    using HasActiveAgents_Inr [of ?m containers w] Inr by auto
  let ?w1 = "snd (HasActiveAgents ?m w)"
  let ?b = "filter (tracked ?m) containers \<noteq> []"
  obtain post where post: "Trace (snd (SendActivitySignal n ?b ?w1)) = Trace ?w1 @ post"
    "filter isListCall post = []"
    using SendActivitySignal_Trace by blast
  have t: "filter isListCall (Trace (snd (SendActivitySignal n ?b ?w1)))
      = filter isListCall (Trace w) @ [ContainerListCall]"
    using post pre filter_isListCall_inventory [OF pre(1)] by simp
  show ?thesis
    using t
    by (cases "SendActivitySignal n ?b ?w1")
       (auto simp: tick_Inr [OF Inr assms] logPrintf_def perform_def split: option.splits)
qed

lemma ticks_queries:
  "\<forall>d \<in> set ds. tickReturns monitor d \<Longrightarrow>
     filter isListCall (Trace (foldl (tick n monitor) w ds))
       = filter isListCall (Trace w) @ replicate (length ds) ContainerListCall"
proof (induction ds arbitrary: w)
  case Nil
  then show ?case by simp
next
  case (Cons d ds)
  then show ?case
    by (simp add: tick_one_query replicate_app_Cons_same)
qed

section \<open>Facts about the concurrent tasks\<close>

text \<open>In every schedule the channel is closed by the last statement of \<open>Stop\<close> and by
  nothing else, and that statement finds it open.\<close>

lemma exec1_closedByStop:
  assumes "closedByStop p" and "exec1 m s p = Some p1"
  shows "closedByStop p1"
proof (cases s)
  case (ReceiveEvent event)
  then show ?thesis
    using assms handleDockerEvent_body_chan [of "clientOf m (World p)" event "World p"]
    by (auto simp: closedByStop_def
        split: goroutine.splits prod.splits outcome.splits option.splits)
next
  case CompleteSend
  then show ?thesis
    using assms
    by (auto simp: closedByStop_def chanSend_def perform_def
        split: goroutine.splits if_splits)
next
  case ReceiveDone
  then show ?thesis
    using assms
    by (auto simp: closedByStop_def logPrintf_def perform_def
        split: goroutine.splits if_splits)
next
  case (ReceiveErr err)
  then show ?thesis
    using assms
    by (auto simp: closedByStop_def logPrintf_def perform_def
        split: goroutine.splits option.splits if_splits)
next
  case StopStep
  then show ?thesis
    using assms
    by (auto simp: closedByStop_def Stop_cancel_def Stop_closeClient_def Stop_closeChan_def
        perform_def split: stopper.splits if_splits)
next
  case Consume
  then show ?thesis
    using assms
    by (auto simp: closedByStop_def split: list.splits)
qed

lemma exec_closedByStop:
  "closedByStop p \<Longrightarrow> exec m ss p = Some p1 \<Longrightarrow> closedByStop p1"
proof (induction ss arbitrary: p)
  case Nil
  then show ?case by simp
next
  case (Cons s ss)
  then show ?case
    by (auto split: option.splits dest: exec1_closedByStop)
qed

text \<open>Run one after the other, the three steps of \<open>Stop\<close> are the function \<open>Monitor_Stop\<close>,
  and the two steps of the handler are the function \<open>handleDockerEvent\<close>.\<close>

lemma exec_Stop:
  "Stopper p = NotCalled \<Longrightarrow>
     map_option World (exec m [StopStep, StopStep, StopStep] p)
       = Some (snd (Monitor_Stop (World p)))"
  by (auto simp: Monitor_Stop_def Stop_closeChan_def split: prod.splits outcome.splits)

lemma exec_handleDockerEvent:
  assumes "EventLoop p = AtSelect" and "\<not> ctxDone (World p)"
    and "fst (handleDockerEvent m event (World p)) \<noteq> Blocked"
  shows "map_option World (exec m [ReceiveEvent event, CompleteSend] p)
           = Some (snd (handleDockerEvent m event (World p)))
         \<or> (fst (handleDockerEvent_body m event (World p)) \<noteq> Return (Some (liveEvent event))
             \<and> map_option World (exec m [ReceiveEvent event] p)
                 = Some (snd (handleDockerEvent m event (World p))))"
proof -
  obtain r w1 where b: "handleDockerEvent_body m event (World p) = (r, w1)"
    by (cases "handleDockerEvent_body m event (World p)")
  have c: "clientOf m (World p) = m"
    using assms(2) by (simp add: clientOf_def)
  show ?thesis
  proof (cases "r = Return (Some (liveEvent event))")
    case True
    then show ?thesis
      using assms b c
      by (auto simp: handleDockerEvent_def split: prod.splits outcome.splits)
  next
    case False
    have "r \<noteq> Return (Some ae)" for ae
      using False handleDockerEvent_body_Some [of m event "World p" ae] b by auto
    then show ?thesis
      using assms b c False
      by (auto simp: handleDockerEvent_def split: outcome.splits option.splits)
  qed
qed

section \<open>Facts about the outcome of the inventory pass\<close>

text \<open>How the loop of sends ends: it returns when there is nothing to send, or when
  the channel is open and has room for every event; it panics on a closed channel; it
  stays parked on its first send without room.\<close>

lemma sendAll_fst:
  "fst (sendAll evs w) =
     (if evs = [] then Return ()
      else if Closed (activityChan w) then Panic SendOnClosedChannel
      else if length (Buf (activityChan w)) + length evs \<le> activityChanCap then Return ()
      else Blocked)"
proof (induction evs arbitrary: w)
  case Nil
  then show ?case by simp
next
  case (Cons ev evs)
  show ?case
  proof (cases "\<not> Closed (activityChan w) \<and> length (Buf (activityChan w)) < activityChanCap")
    case True
    let ?w1 = "perform (Send ev)
        (w\<lparr>activityChan := (activityChan w)\<lparr>Buf := Buf (activityChan w) @ [ev]\<rparr>\<rparr>)"
    have s: "chanSend ev w = (Return (), ?w1)"
      using True by (simp add: chanSend_def)
    have c: "Closed (activityChan ?w1) = Closed (activityChan w)"
      "length (Buf (activityChan ?w1)) = Suc (length (Buf (activityChan w)))"
      by (simp_all add: perform_def)
    show ?thesis
      using s True Cons.IH [of ?w1] c by auto
  next
    case False
    then show ?thesis
      by (auto simp: chanSend_def)
  qed
qed

lemma GetRunningAzureAgents_outcome:
  assumes "ContainerList (dockerClient m) = Inr containers"
  shows "(\<forall>c \<in> set containers. \<not> panics_on m c) \<longrightarrow>
           fst (GetRunningAzureAgents m w) = Return (Inr (inventoryEvents m containers w))"
    and "(\<exists>c \<in> set containers. panics_on m c) \<longrightarrow>
           (\<exists>p. fst (GetRunningAzureAgents m w) = Panic p)"
proof -
  let ?w0 = "perform ContainerListCall w"
  obtain r w1 where a: "agentsLoop m containers [] ?w0 = (r, w1)"
    by (cases "agentsLoop m containers [] ?w0")
  have g: "GetRunningAzureAgents m w =
      (case r of Return agents \<Rightarrow> (Return (Inr agents), w1)
       | Panic p \<Rightarrow> (Panic p, w1) | Blocked \<Rightarrow> (Blocked, w1))"
    using assms a by (simp add: GetRunningAzureAgents_Inr split: outcome.splits)
  note o = agentsLoop_outcome [of m containers "[]" ?w0]
  show "(\<forall>c \<in> set containers. \<not> panics_on m c) \<longrightarrow>
           fst (GetRunningAzureAgents m w) = Return (Inr (inventoryEvents m containers w))"
  proof
    assume "\<forall>c \<in> set containers. \<not> panics_on m c"
    then obtain agents where r: "r = Return agents"
      using o a by auto
    then have "GetRunningAzureAgents m w = (Return (Inr agents), w1)"
      using g by simp
    then show "fst (GetRunningAzureAgents m w) = Return (Inr (inventoryEvents m containers w))"
      using GetRunningAzureAgents_Return [OF assms] by auto
  qed
  show "(\<exists>c \<in> set containers. panics_on m c) \<longrightarrow>
           (\<exists>p. fst (GetRunningAzureAgents m w) = Panic p)"
  proof
    assume "\<exists>c \<in> set containers. panics_on m c"
    then have "\<forall>agents. r \<noteq> Return agents" "r \<noteq> Blocked"
      using o a by auto
    then obtain p where "r = Panic p"
      by (cases r) auto
    then show "\<exists>p. fst (GetRunningAzureAgents m w) = Panic p"
      using g by simp
  qed
qed

text \<open>How \<open>StartMonitoring\<close> ends when the enumeration answers with a list.\<close>

lemma StartMonitoring_outcome:
  assumes "ContainerList (dockerClient m) = Inr containers"
  shows "(\<exists>c \<in> set containers. panics_on m c) \<longrightarrow>
           (\<exists>p. fst (StartMonitoring m w) = Panic p)
           \<and> activityChan (snd (StartMonitoring m w)) = activityChan w"
    and "(\<forall>c \<in> set containers. \<not> panics_on m c) \<longrightarrow>
           fst (StartMonitoring m w) =
             (if filter (tracked m) containers = [] then Return None
              else if Closed (activityChan w) then Panic SendOnClosedChannel
              else if length (Buf (activityChan w)) + length (filter (tracked m) containers)
                        \<le> activityChanCap
              then Return None
              else Blocked)"
proof -
  obtain r w1 where g: "GetRunningAzureAgents m w = (r, w1)"
    by (cases "GetRunningAzureAgents m w")
  have c1: "activityChan w1 = activityChan w"
    using GetRunningAzureAgents_chan [of m w] g by simp
  show "(\<exists>c \<in> set containers. panics_on m c) \<longrightarrow>
           (\<exists>p. fst (StartMonitoring m w) = Panic p)
           \<and> activityChan (snd (StartMonitoring m w)) = activityChan w"
  proof
    assume "\<exists>c \<in> set containers. panics_on m c"
    then obtain p where "r = Panic p"
      using GetRunningAzureAgents_outcome(2) [OF assms, of w] g by auto
    then have "StartMonitoring m w = (Panic p, w1)"
      using g by (simp add: StartMonitoring_def)
    then show "(\<exists>p. fst (StartMonitoring m w) = Panic p)
           \<and> activityChan (snd (StartMonitoring m w)) = activityChan w"
      using c1 by simp
  qed
  show "(\<forall>c \<in> set containers. \<not> panics_on m c) \<longrightarrow>
           fst (StartMonitoring m w) =
             (if filter (tracked m) containers = [] then Return None
              else if Closed (activityChan w) then Panic SendOnClosedChannel
              else if length (Buf (activityChan w)) + length (filter (tracked m) containers)
                        \<le> activityChanCap
              then Return None
              else Blocked)"
  proof
    assume "\<forall>c \<in> set containers. \<not> panics_on m c"
    then have r: "r = Return (Inr (inventoryEvents m containers w))"
      using GetRunningAzureAgents_outcome(1) [OF assms, of w] g by auto
    let ?evs = "inventoryEvents m containers w"
    let ?w2 = "logPrintf (FoundAgents (length ?evs)) w1"
    have len: "length ?evs = length (filter (tracked m) containers)"
      by (simp add: inventoryEvents_def)
    have c2: "activityChan ?w2 = activityChan w"
      using c1 by (simp add: logPrintf_def perform_def)
    have "fst (StartMonitoring m w) =
        (case fst (sendAll ?evs ?w2) of
           Return u \<Rightarrow> Return None | Panic p \<Rightarrow> Panic p | Blocked \<Rightarrow> Blocked)"
      using g r
      by (auto simp: StartMonitoring_def Let_def split: prod.splits outcome.splits)
    then show "fst (StartMonitoring m w) =
             (if filter (tracked m) containers = [] then Return None
              else if Closed (activityChan w) then Panic SendOnClosedChannel
              else if length (Buf (activityChan w)) + length (filter (tracked m) containers)
                        \<le> activityChanCap
              then Return None
              else Blocked)"
      using len c2 by (auto simp: sendAll_fst)
  qed
qed

section \<open>Claims\<close>

text \<open>
  C1. For every container configuration (image reference, environment list, label map)
  the classifier answers true exactly when (a) the lowercased image holds both "azure"
  and "agent", or holds "azp" or "vsts", or (b) some label has "azure" in its lowercased
  key or value and "agent" in its lowercased key or value, or (c) some environment entry
  holds "azp_" or "vsts_" once lowercased. For the image "nginx:latest" the image rule
  does not fire, so with no matching label and no matching environment entry the answer
  is false.
\<close>

theorem C1_classifier:
  "IsAzureAgentContainer containerInfo =
     (spec_image_rule (Config_Image (Config containerInfo))
      \<or> spec_label_rule (Config_Labels (Config containerInfo))
      \<or> spec_env_rule (Config_Env (Config containerInfo)))
   \<and> IsAzureAgentContainer
        \<lparr>Config = \<lparr>Config_Image = ''nginx:latest'', Config_Env = envs, Config_Labels = labels\<rparr>\<rparr>
      = (spec_label_rule labels \<or> spec_env_rule envs)"
proof -
  have general: "IsAzureAgentContainer ci =
     (spec_image_rule (Config_Image (Config ci))
      \<or> spec_label_rule (Config_Labels (Config ci))
      \<or> spec_env_rule (Config_Env (Config ci)))" for ci
    by (auto simp: IsAzureAgentContainer_def spec_image_rule_def Let_def
        Contains_sublist labelsLoop_spec envLoop_spec)
  show ?thesis
    using general [of containerInfo]
      general [of "\<lparr>Config = \<lparr>Config_Image = ''nginx:latest'', Config_Env = envs,
        Config_Labels = labels\<rparr>\<rparr>"]
      nginx_no_image_rule
    by simp
qed

theorem C1_classifier_witness:
  "IsAzureAgentContainer
     \<lparr>Config = \<lparr>Config_Image = ''nginx:latest'', Config_Env = [''PORT=8080''],
        Config_Labels = []\<rparr>\<rparr> = False
   \<and> IsAzureAgentContainer
     \<lparr>Config = \<lparr>Config_Image = ''some-image:latest'', Config_Env = [],
        Config_Labels = [(''app'', ''Azure-Agent''), (''type'', ''devops'')]\<rparr>\<rparr> = True"
proof -
  have a: "\<not> spec_env_rule [''PORT=8080'']"
    unfolding spec_env_rule_def Contains_sublist [symmetric]
    by code_simp
  have b: "\<not> spec_label_rule []"
    by (simp add: spec_label_rule_def)
  have c: "spec_label_rule [(''app'', ''Azure-Agent''), (''type'', ''devops'')]"
    unfolding spec_label_rule_def Contains_sublist [symmetric]
    by code_simp
  show ?thesis
    using C1_classifier [of "\<lparr>Config = \<lparr>Config_Image = ''some-image:latest'', Config_Env = [],
        Config_Labels = [(''app'', ''Azure-Agent''), (''type'', ''devops'')]\<rparr>\<rparr>"
        "[''PORT=8080'']" "[]"] a b c
    by simp
qed

text \<open>
  C2 (amended). For every container identity of at least 12 bytes, every display name,
  image and pair of exclusion lists, the filter returns true exactly when some entry of
  the excluded-container list is a substring of the name or of the identity, or some
  entry of the excluded-image list is a substring of the image. In particular, with the
  excluded-image list ["azure-agent"] and the image "myrepo/azure-agent:latest" it returns
  true. For every identity, when no entry matches, it returns false.
\<close>

theorem C2_exclusion_filter:
  "(12 \<le> length containerID \<longrightarrow>
      fst (isExcluded m containerID containerName imageName w)
        = Return (spec_excluded m containerID containerName imageName))
   \<and> (12 \<le> length containerID \<longrightarrow>
        fst (isExcluded (m\<lparr>excludeImages := [''azure-agent'']\<rparr>) containerID containerName
               ''myrepo/azure-agent:latest'' w) = Return True)
   \<and> (\<not> spec_excluded m containerID containerName imageName \<longrightarrow>
        fst (isExcluded m containerID containerName imageName w) = Return False)"
proof -
  have "sublist ''azure-agent'' ''myrepo/azure-agent:latest''"
    unfolding Contains_sublist [symmetric] by simp
  then have "spec_excluded (m\<lparr>excludeImages := [''azure-agent'']\<rparr>) containerID containerName
      ''myrepo/azure-agent:latest''"
    by (simp add: spec_excluded_def)
  then show ?thesis
    by (simp add: isExcluded_fst)
qed

theorem C2_exclusion_filter_witness:
  "fst (isExcluded ex_filter ''0123456789abcdef'' ''web'' ''myrepo/azure-agent:latest'' ex_world)
     = Return True
   \<and> fst (isExcluded ex_filter ''0123456789abcdef'' ''web'' ''nginx:latest'' ex_world)
     = Return False"
proof -
  have a: "ex_filter\<lparr>excludeImages := [''azure-agent'']\<rparr> = ex_filter"
    by (simp add: ex_filter_def)
  have b: "\<not> spec_excluded ex_filter ''0123456789abcdef'' ''web'' ''nginx:latest''"
    unfolding spec_excluded_def Contains_sublist [symmetric]
    by (simp add: ex_filter_def)
  show ?thesis
    using C2_exclusion_filter [of "''0123456789abcdef''" ex_filter "''web''" "''nginx:latest''" ex_world]
      a b
    by simp
qed

text \<open>
  C2 as stated fails on an identity shorter than 12 bytes: with the excluded-image list
  ["azure-agent"], the image "myrepo/azure-agent:latest" and the identity "abc" an entry
  matches, and the filter panics on \<^verbatim>\<open>containerID[:12]\<close> while it builds the log line,
  so it does not return true.
\<close>

theorem C2_short_identity_counterexample:
  "spec_excluded ex_filter ''abc'' ''web'' ''myrepo/azure-agent:latest''
   \<and> fst (isExcluded ex_filter ''abc'' ''web'' ''myrepo/azure-agent:latest'' ex_world)
       = Panic SliceBoundsOutOfRange"
proof -
  have "spec_excluded ex_filter ''abc'' ''web'' ''myrepo/azure-agent:latest''"
    unfolding spec_excluded_def Contains_sublist [symmetric]
    by (simp add: ex_filter_def)
  then show ?thesis
    by (simp add: isExcluded_fst)
qed

text \<open>
  C3. For every notifier whose container-instance ARN is empty, and for both values of
  the flag: \<open>SendActivitySignal\<close> returns nil, and all it does is write the line that says
  the notification is skipped, so it sends no request to the ECS API;
  \<open>SetProtectionEnabled\<close> returns an error and leaves the state of the process as it was,
  so it sends no request either.
\<close>

theorem C3_unresolved_identity:
  assumes "containerInstanceARN n = []"
  shows "fst (SendActivitySignal n hasActivity w) = None
    \<and> Trace (snd (SendActivitySignal n hasActivity w)) = Trace w @ [Log ARNNotSet]
    \<and> filter isEcsCall (Trace (snd (SendActivitySignal n hasActivity w)))
        = filter isEcsCall (Trace w)
    \<and> fst (SetProtectionEnabled n enabled w) = Some (New ''container instance ARN not set'')
    \<and> snd (SetProtectionEnabled n enabled w) = w"
  using assms
  by (simp add: SendActivitySignal_def SetProtectionEnabled_def Trace_logPrintf)

theorem C3_unresolved_identity_witness:
  "fst (SendActivitySignal ex_unresolved True ex_world) = None
   \<and> fst (SendActivitySignal ex_unresolved False ex_world) = None
   \<and> Trace (snd (SendActivitySignal ex_unresolved True ex_world)) = [Log ARNNotSet]
   \<and> Trace (snd (SendActivitySignal ex_unresolved False ex_world)) = [Log ARNNotSet]
   \<and> fst (SetProtectionEnabled ex_unresolved True ex_world)
       = Some (New ''container instance ARN not set'')
   \<and> fst (SetProtectionEnabled ex_unresolved False ex_world)
       = Some (New ''container instance ARN not set'')
   \<and> Trace (snd (SetProtectionEnabled ex_unresolved True ex_world)) = []
   \<and> Trace (snd (SetProtectionEnabled ex_unresolved False ex_world)) = []"
proof -
  have a: "containerInstanceARN ex_unresolved = []"
    by (simp add: ex_unresolved_def)
  have t: "Trace ex_world = []"
    by (simp add: ex_world_def)
  show ?thesis
    using C3_unresolved_identity [OF a, of True ex_world True]
      C3_unresolved_identity [OF a, of False ex_world False] t
    by simp
qed

text \<open>
  C4 (amended). \<open>StartMonitoring\<close> returns an error exactly when the enumeration of the
  running containers fails. When the enumeration answers with a list on which the
  inventory pass does not panic (every listed container has a name, and an identity of
  at least 12 bytes if it is excluded or classified), and the channel is open and has
  room for the matched events within its capacity of 100, \<open>StartMonitoring\<close> returns nil,
  and the events it has put on the channel are, in the order of the list, exactly one
  event with action "running" for each container that passes the exclusion filter and is
  classified as a tracked workload, and none for the others; in the trace of effects
  these sends come before the subscription to the event stream, and no other send and
  no other subscription precedes them. With room missing it stays parked on a send, on
  a closed channel with something to send it panics, and on a list that makes the
  inventory pass panic it panics before it sends anything. Whenever it returns nil, it
  has emitted as described.
\<close>

theorem C4_start_monitoring:
  "((\<exists>err. fst (StartMonitoring m w) = Return (Some err))
      = (\<exists>err. ContainerList (dockerClient m) = Inl err))
   \<and> (ContainerList (dockerClient m) = Inr containers
        \<and> (\<forall>c \<in> set containers. \<not> panics_on m c)
        \<and> \<not> Closed (activityChan w)
        \<and> length (Buf (activityChan w)) + length (filter (tracked m) containers) \<le> 100 \<longrightarrow>
        fst (StartMonitoring m w) = Return None
        \<and> (\<exists>evs pre since.
              Buf (activityChan (snd (StartMonitoring m w))) = Buf (activityChan w) @ evs
            \<and> map (\<lambda>ev. (ContainerID ev, ContainerName ev, ImageName ev, Action ev,
                         IsAzureAgent ev)) evs
                = map (\<lambda>c. (take 12 (Container_ID c), displayName c, Container_Image c,
                             ''running'', True))
                    (filter (tracked m) containers)
            \<and> Trace (snd (StartMonitoring m w))
                = Trace w @ pre @ map Send evs @ [EventsCall since, Go_eventLoop]
            \<and> list_all (\<lambda>e. \<not> isChannelOrStreamEffect e) pre))
   \<and> (ContainerList (dockerClient m) = Inr containers
        \<and> (\<forall>c \<in> set containers. \<not> panics_on m c) \<longrightarrow>
        fst (StartMonitoring m w) =
          (if filter (tracked m) containers = [] then Return None
           else if Closed (activityChan w) then Panic SendOnClosedChannel
           else if length (Buf (activityChan w)) + length (filter (tracked m) containers) \<le> 100
           then Return None
           else Blocked))
   \<and> (ContainerList (dockerClient m) = Inr containers
        \<and> (\<exists>c \<in> set containers. panics_on m c) \<longrightarrow>
        (\<exists>p. fst (StartMonitoring m w) = Panic p)
        \<and> activityChan (snd (StartMonitoring m w)) = activityChan w)
   \<and> (fst (StartMonitoring m w) = Return None \<longrightarrow>
        (\<exists>containers evs pre since.
           ContainerList (dockerClient m) = Inr containers
         \<and> Buf (activityChan (snd (StartMonitoring m w))) = Buf (activityChan w) @ evs
         \<and> map (\<lambda>ev. (ContainerID ev, ContainerName ev, ImageName ev, Action ev, IsAzureAgent ev)) evs
             = map (\<lambda>c. (take 12 (Container_ID c), displayName c, Container_Image c,
                          ''running'', True))
                 (filter (tracked m) containers)
         \<and> Trace (snd (StartMonitoring m w))
             = Trace w @ pre @ map Send evs @ [EventsCall since, Go_eventLoop]
         \<and> list_all (\<lambda>e. \<not> isChannelOrStreamEffect e) pre))"
proof -
  have emitted: "\<exists>containers evs pre since.
           ContainerList (dockerClient m) = Inr containers
         \<and> Buf (activityChan (snd (StartMonitoring m w))) = Buf (activityChan w) @ evs
         \<and> map (\<lambda>ev. (ContainerID ev, ContainerName ev, ImageName ev, Action ev, IsAzureAgent ev)) evs
             = map (\<lambda>c. (take 12 (Container_ID c), displayName c, Container_Image c,
                          ''running'', True))
                 (filter (tracked m) containers)
         \<and> Trace (snd (StartMonitoring m w))
             = Trace w @ pre @ map Send evs @ [EventsCall since, Go_eventLoop]
         \<and> list_all (\<lambda>e. \<not> isChannelOrStreamEffect e) pre"
    if ok: "fst (StartMonitoring m w) = Return None"
  proof -
    from StartMonitoring_Return_None [OF ok] obtain containers pre where
      l: "ContainerList (dockerClient m) = Inr containers"
      and pre: "list_all isInventoryEffect pre"
      and w': "snd (StartMonitoring m w) =
          w\<lparr>Trace := Trace w @ ContainerListCall # pre
                 @ [Log (FoundAgents (length (inventoryEvents m containers w)))]
                 @ map Send (inventoryEvents m containers w)
                 @ [EventsCall
                      (Sec (Clock w (Reads w + length (filter (tracked m) containers))) - 60),
                    Go_eventLoop],
             Reads := Suc (Reads w + length (filter (tracked m) containers)),
             activityChan := (activityChan w)
               \<lparr>Buf := Buf (activityChan w) @ inventoryEvents m containers w\<rparr>\<rparr>"
      by blast
    let ?evs = "inventoryEvents m containers w"
    let ?pre = "ContainerListCall # pre @ [Log (FoundAgents (length ?evs))]"
    have "list_all (\<lambda>e. \<not> isChannelOrStreamEffect e) ?pre"
      using list_all_not_channel [OF pre] by simp
    moreover have "Trace (snd (StartMonitoring m w))
        = Trace w @ ?pre @ map Send ?evs
            @ [EventsCall (Sec (Clock w (Reads w + length (filter (tracked m) containers))) - 60),
               Go_eventLoop]"
      using w' by simp
    moreover have "Buf (activityChan (snd (StartMonitoring m w))) = Buf (activityChan w) @ ?evs"
      using w' by simp
    ultimately show ?thesis
      using l inventoryEvents_fields [of m containers w] by blast
  qed
  have err: "(\<exists>err. fst (StartMonitoring m w) = Return (Some err))
      = (\<exists>err. ContainerList (dockerClient m) = Inl err)"
  proof (cases "ContainerList (dockerClient m)")
    case (Inl err)
    then show ?thesis
      by (simp add: StartMonitoring_def GetRunningAzureAgents_Inl)
  next
    case (Inr containers)
    then show ?thesis
      by (auto simp: StartMonitoring_def GetRunningAzureAgents_Inr Let_def
          split: prod.splits outcome.splits sum.splits)
  qed
  have outcome: "fst (StartMonitoring m w) =
          (if filter (tracked m) containers = [] then Return None
           else if Closed (activityChan w) then Panic SendOnClosedChannel
           else if length (Buf (activityChan w)) + length (filter (tracked m) containers) \<le> 100
           then Return None
           else Blocked)"
    if "ContainerList (dockerClient m) = Inr containers
        \<and> (\<forall>c \<in> set containers. \<not> panics_on m c)"
    using that StartMonitoring_outcome(2) [of m containers w]
    by (simp add: activityChanCap_def)
  have total: "fst (StartMonitoring m w) = Return None
        \<and> (\<exists>evs pre since.
              Buf (activityChan (snd (StartMonitoring m w))) = Buf (activityChan w) @ evs
            \<and> map (\<lambda>ev. (ContainerID ev, ContainerName ev, ImageName ev, Action ev,
                         IsAzureAgent ev)) evs
                = map (\<lambda>c. (take 12 (Container_ID c), displayName c, Container_Image c,
                             ''running'', True))
                    (filter (tracked m) containers)
            \<and> Trace (snd (StartMonitoring m w))
                = Trace w @ pre @ map Send evs @ [EventsCall since, Go_eventLoop]
            \<and> list_all (\<lambda>e. \<not> isChannelOrStreamEffect e) pre)"
    if h: "ContainerList (dockerClient m) = Inr containers
        \<and> (\<forall>c \<in> set containers. \<not> panics_on m c)
        \<and> \<not> Closed (activityChan w)
        \<and> length (Buf (activityChan w)) + length (filter (tracked m) containers) \<le> 100"
  proof -
    have ok: "fst (StartMonitoring m w) = Return None"
      using h outcome by simp
    from emitted [OF ok] obtain containers' evs pre since where
      e: "ContainerList (dockerClient m) = Inr containers'"
      "Buf (activityChan (snd (StartMonitoring m w))) = Buf (activityChan w) @ evs"
      "map (\<lambda>ev. (ContainerID ev, ContainerName ev, ImageName ev, Action ev, IsAzureAgent ev)) evs
         = map (\<lambda>c. (take 12 (Container_ID c), displayName c, Container_Image c,
                      ''running'', True))
             (filter (tracked m) containers')"
      "Trace (snd (StartMonitoring m w))
         = Trace w @ pre @ map Send evs @ [EventsCall since, Go_eventLoop]"
      "list_all (\<lambda>e. \<not> isChannelOrStreamEffect e) pre"
      by blast
    have "containers' = containers"
      using e(1) h by simp
    then show ?thesis
      using ok e by blast
  qed
  have panics: "(\<exists>p. fst (StartMonitoring m w) = Panic p)
        \<and> activityChan (snd (StartMonitoring m w)) = activityChan w"
    if "ContainerList (dockerClient m) = Inr containers
        \<and> (\<exists>c \<in> set containers. panics_on m c)"
    using that StartMonitoring_outcome(1) [of m containers w] by simp
  show ?thesis
    using err total outcome panics emitted by blast
qed

theorem C4_start_monitoring_witness:
  "fst (StartMonitoring ex_monitor ex_world) = Return None
   \<and> map (\<lambda>ev. (ContainerID ev, ContainerName ev, ImageName ev, Action ev, IsAzureAgent ev))
        (Buf (activityChan (snd (StartMonitoring ex_monitor ex_world))))
       = [(''0123456789ab'', ''agent1'', ''vsts-agent:1'', ''running'', True)]
   \<and> (\<exists>err. fst (StartMonitoring ex_unreachable ex_world) = Return (Some err))
   \<and> fst (StartMonitoring ex_monitor ex_world_full) = Blocked
   \<and> (\<exists>p. fst (StartMonitoring ex_short_monitor ex_world) = Panic p)"
proof -
  have l: "ContainerList (dockerClient ex_monitor) = Inr ex_containers"
    by (simp add: ex_monitor_def ex_dockerd_def)
  have np: "\<forall>c \<in> set ex_containers. \<not> panics_on ex_monitor c"
    by code_simp
  have f: "filter (tracked ex_monitor) ex_containers
      = [\<lparr>Container_ID = ''0123456789abcdef'', Container_Names = [''/agent1''],
          Container_Image = ''vsts-agent:1''\<rparr>]"
    by code_simp
  have d: "displayName \<lparr>Container_ID = ''0123456789abcdef'', Container_Names = [''/agent1''],
          Container_Image = ''vsts-agent:1''\<rparr> = ''agent1''"
    by code_simp
  have b: "Buf (activityChan ex_world) = []" "\<not> Closed (activityChan ex_world)"
    by (simp_all add: ex_world_def)
  have bf: "length (Buf (activityChan ex_world_full)) = 100"
    "\<not> Closed (activityChan ex_world_full)"
    by (simp_all add: ex_world_full_def)
  have u: "ContainerList (dockerClient ex_unreachable)
      = Inl (New ''Cannot connect to the Docker daemon'')"
    by (simp add: ex_unreachable_def)
  let ?short = "\<lparr>Container_ID = ''abc'', Container_Names = [''/agent1''],
      Container_Image = ''vsts-agent:1''\<rparr>"
  have sl: "ContainerList (dockerClient ex_short_monitor) = Inr [?short]"
    by (simp add: ex_short_monitor_def)
  have sp: "\<exists>c \<in> set [?short]. panics_on ex_short_monitor c"
    by code_simp
  note t1 = C4_start_monitoring [where m = ex_monitor and w = ex_world
      and containers = ex_containers]
  note t2 = C4_start_monitoring [where m = ex_unreachable and w = ex_world
      and containers = "[]"]
  note t3 = C4_start_monitoring [where m = ex_monitor and w = ex_world_full
      and containers = ex_containers]
  note t4 = C4_start_monitoring [where m = ex_short_monitor and w = ex_world
      and containers = "[?short]"]
  have r1: "fst (StartMonitoring ex_monitor ex_world) = Return None"
    and e1: "\<exists>evs. Buf (activityChan (snd (StartMonitoring ex_monitor ex_world)))
               = Buf (activityChan ex_world) @ evs
        \<and> map (\<lambda>ev. (ContainerID ev, ContainerName ev, ImageName ev, Action ev,
                     IsAzureAgent ev)) evs
            = map (\<lambda>c. (take 12 (Container_ID c), displayName c, Container_Image c,
                         ''running'', True))
                (filter (tracked ex_monitor) ex_containers)"
    using t1 l np b f by auto
  have r2: "\<exists>err. fst (StartMonitoring ex_unreachable ex_world) = Return (Some err)"
    using t2 u by simp
  have r3: "fst (StartMonitoring ex_monitor ex_world_full) = Blocked"
    using t3 l np bf f by simp
  have r4: "\<exists>p. fst (StartMonitoring ex_short_monitor ex_world) = Panic p"
    using t4 sl sp by blast
  show ?thesis
    using r1 e1 r2 r3 r4 b f d by auto
qed

text \<open>
  C4 as stated fails when the enumeration succeeds and \<open>StartMonitoring\<close> cannot finish its
  sends: on a daemon that lists a build agent with the three-byte identity "abc" it
  panics on \<^verbatim>\<open>c.ID[:12]\<close> and emits nothing, although the container passes the filter and
  is classified; with the channel already holding 100 events it stays parked on its
  first send, emits nothing and never reaches the subscription.
\<close>

theorem C4_enumeration_succeeds_counterexample:
  "tracked ex_short_monitor
     \<lparr>Container_ID = ''abc'', Container_Names = [''/agent1''], Container_Image = ''vsts-agent:1''\<rparr>
   \<and> ContainerList (dockerClient ex_short_monitor)
       = Inr [\<lparr>Container_ID = ''abc'', Container_Names = [''/agent1''],
               Container_Image = ''vsts-agent:1''\<rparr>]
   \<and> fst (StartMonitoring ex_short_monitor ex_world) = Panic SliceBoundsOutOfRange
   \<and> Buf (activityChan (snd (StartMonitoring ex_short_monitor ex_world))) = []
   \<and> length (filter (tracked ex_monitor) ex_containers) = 1
   \<and> fst (StartMonitoring ex_monitor ex_world_full) = Blocked
   \<and> Buf (activityChan (snd (StartMonitoring ex_monitor ex_world_full)))
       = Buf (activityChan ex_world_full)
   \<and> filter isChannelOrStreamEffect (Trace (snd (StartMonitoring ex_monitor ex_world_full))) = []"
  by code_simp

text \<open>
  C5 (amended). For every incoming runtime event: when the event is not of the
  "container" category, or its action is outside the allow-list (create, start, stop,
  kill, die, exec_start), the handler returns without any effect. For an allowed action
  on an identity of at least 12 bytes: if the fetch of the configuration fails, the
  handler returns after one log line and sends nothing, the line being the note
  "already removed" (no warning) when the action is stop, kill or die, and the warning
  "Failed to inspect" otherwise; if the container is excluded or not classified, the
  handler returns and the channel is left as it was. For every event, whatever its
  identity, the channel changes only by receiving the event made from a runtime event
  that passes exclusion and classification.
\<close>

theorem C5_handle_event:
  "(Message_Type event \<noteq> ''container'' \<or> Message_Action event \<notin> allowList \<longrightarrow>
      handleDockerEvent m event w = (Return (), w))
   \<and> (Message_Type event = ''container'' \<and> Message_Action event \<in> allowList
        \<and> 12 \<le> length (Actor_ID (Message_Actor event))
        \<and> ContainerInspect (dockerClient m) (Actor_ID (Message_Actor event)) = Inl err \<longrightarrow>
        fst (handleDockerEvent m event w) = Return ()
        \<and> activityChan (snd (handleDockerEvent m event w)) = activityChan w
        \<and> Trace (snd (handleDockerEvent m event w))
            = Trace w @ [ContainerInspectCall (Actor_ID (Message_Actor event)),
                 Log (if Message_Action event \<in> terminalActions
                      then AlreadyRemoved (take 12 (Actor_ID (Message_Actor event)))
                      else FailedToInspect (take 12 (Actor_ID (Message_Actor event))) err)]
        \<and> filter isWarning (Trace (snd (handleDockerEvent m event w)))
            = filter isWarning (Trace w)
                @ (if Message_Action event \<in> terminalActions then []
                   else [Log (FailedToInspect (take 12 (Actor_ID (Message_Actor event))) err)]))
   \<and> (Message_Type event = ''container'' \<and> Message_Action event \<in> allowList
        \<and> 12 \<le> length (Actor_ID (Message_Actor event))
        \<and> ContainerInspect (dockerClient m) (Actor_ID (Message_Actor event)) = Inr containerInfo
        \<and> (spec_excluded m (Actor_ID (Message_Actor event)) (eventName event) (eventImage event)
            \<or> \<not> IsAzureAgentContainer containerInfo) \<longrightarrow>
        fst (handleDockerEvent m event w) = Return ()
        \<and> activityChan (snd (handleDockerEvent m event w)) = activityChan w
        \<and> filter isSend (Trace (snd (handleDockerEvent m event w))) = filter isSend (Trace w))
   \<and> (activityChan (snd (handleDockerEvent m event w)) \<noteq> activityChan w \<longrightarrow>
        passes m event
        \<and> activityChan (snd (handleDockerEvent m event w))
            = (activityChan w)\<lparr>Buf := Buf (activityChan w) @ [liveEvent event]\<rparr>)"
proof (intro conjI impI)
  assume "Message_Type event \<noteq> ''container'' \<or> Message_Action event \<notin> allowList"
  then show "handleDockerEvent m event w = (Return (), w)"
    by (rule handleDockerEvent_ignored)
next
  assume a: "Message_Type event = ''container'' \<and> Message_Action event \<in> allowList
        \<and> 12 \<le> length (Actor_ID (Message_Actor event))
        \<and> ContainerInspect (dockerClient m) (Actor_ID (Message_Actor event)) = Inl err"
  then have h: "handleDockerEvent m event w =
      (Return (),
       logPrintf
         (if Message_Action event \<in> terminalActions
          then AlreadyRemoved (take 12 (Actor_ID (Message_Actor event)))
          else FailedToInspect (take 12 (Actor_ID (Message_Actor event))) err)
         (perform (ContainerInspectCall (Actor_ID (Message_Actor event))) w))"
    by (simp add: handleDockerEvent_def handleDockerEvent_body_cases)
  show "fst (handleDockerEvent m event w) = Return ()"
    using h by simp
  show "activityChan (snd (handleDockerEvent m event w)) = activityChan w"
    using h by (simp add: logPrintf_def perform_def)
  show "Trace (snd (handleDockerEvent m event w))
      = Trace w @ [ContainerInspectCall (Actor_ID (Message_Actor event)),
           Log (if Message_Action event \<in> terminalActions
                then AlreadyRemoved (take 12 (Actor_ID (Message_Actor event)))
                else FailedToInspect (take 12 (Actor_ID (Message_Actor event))) err)]"
    using h by (simp add: logPrintf_def perform_def)
  show "filter isWarning (Trace (snd (handleDockerEvent m event w)))
      = filter isWarning (Trace w)
          @ (if Message_Action event \<in> terminalActions then []
             else [Log (FailedToInspect (take 12 (Actor_ID (Message_Actor event))) err)])"
    using h by (simp add: logPrintf_def perform_def)
next
  assume a: "Message_Type event = ''container'' \<and> Message_Action event \<in> allowList
        \<and> 12 \<le> length (Actor_ID (Message_Actor event))
        \<and> ContainerInspect (dockerClient m) (Actor_ID (Message_Actor event)) = Inr containerInfo
        \<and> (spec_excluded m (Actor_ID (Message_Actor event)) (eventName event) (eventImage event)
            \<or> \<not> IsAzureAgentContainer containerInfo)"
  let ?w1 = "perform (ContainerInspectCall (Actor_ID (Message_Actor event))) w"
  obtain pre where pre: "list_all isInventoryEffect pre"
    "snd (isExcluded m (Actor_ID (Message_Actor event)) (eventName event) (eventImage event) ?w1)
       = ?w1\<lparr>Trace := Trace ?w1 @ pre\<rparr>"
    using isExcluded_world by blast
  have np: "\<not> passes m event"
    using a by (auto simp: passes_def classified_def)
  have ns: "filter isSend pre = []"
    using pre(1)
  proof (induction pre)
    case Nil
    then show ?case by simp
  next
    case (Cons e pre)
    then show ?case by (cases e) auto
  qed
  show "fst (handleDockerEvent m event w) = Return ()"
    using a by (auto simp: handleDockerEvent_def handleDockerEvent_body_cases)
  show "activityChan (snd (handleDockerEvent m event w)) = activityChan w"
    using np by (simp add: handleDockerEvent_Buf)
  show "filter isSend (Trace (snd (handleDockerEvent m event w))) = filter isSend (Trace w)"
    using a pre(2) ns
    by (auto simp: handleDockerEvent_def handleDockerEvent_body_cases perform_def)
next
  assume c: "activityChan (snd (handleDockerEvent m event w)) \<noteq> activityChan w"
  then show "passes m event"
    by (simp add: handleDockerEvent_Buf split: if_splits)
  show "activityChan (snd (handleDockerEvent m event w))
      = (activityChan w)\<lparr>Buf := Buf (activityChan w) @ [liveEvent event]\<rparr>"
    using c by (simp add: handleDockerEvent_Buf split: if_splits)
qed

theorem C5_handle_event_witness:
  "handleDockerEvent ex_monitor (ex_start\<lparr>Message_Action := ''destroy''\<rparr>) ex_world
     = (Return (), ex_world)
   \<and> fst (handleDockerEvent ex_monitor ex_die ex_world) = Return ()
   \<and> Trace (snd (handleDockerEvent ex_monitor ex_die ex_world))
       = [ContainerInspectCall ''fedcba9876543210'', Log (AlreadyRemoved ''fedcba987654'')]
   \<and> filter isWarning (Trace (snd (handleDockerEvent ex_monitor ex_die ex_world))) = []
   \<and> Trace (snd (handleDockerEvent ex_monitor (ex_die\<lparr>Message_Action := ''create''\<rparr>) ex_world))
       = [ContainerInspectCall ''fedcba9876543210'',
          Log (FailedToInspect ''fedcba987654'' (New ''No such container''))]
   \<and> fst (handleDockerEvent ex_monitor
            (ex_die\<lparr>Message_Actor := (Message_Actor ex_die)\<lparr>Actor_ID := ''aaaabbbbccccdddd''\<rparr>\<rparr>)
            ex_world) = Return ()
   \<and> Buf (activityChan (snd (handleDockerEvent ex_monitor ex_start ex_world)))
       = [liveEvent ex_start]"
proof -
  have t: "Trace ex_world = []" "Buf (activityChan ex_world) = []"
    by (simp_all add: ex_world_def)
  have a1: "Message_Action (ex_start\<lparr>Message_Action := ''destroy''\<rparr>) \<notin> allowList"
    by (simp add: allowList_def)
  have a2: "Message_Type ex_die = ''container'' \<and> Message_Action ex_die \<in> allowList
      \<and> 12 \<le> length (Actor_ID (Message_Actor ex_die))
      \<and> ContainerInspect (dockerClient ex_monitor) (Actor_ID (Message_Actor ex_die))
          = Inl (New ''No such container'')"
    by (simp add: ex_die_def allowList_def ex_monitor_def ex_dockerd_def)
  have a2t: "Message_Action ex_die \<in> terminalActions"
    by (simp add: ex_die_def terminalActions_def)
  let ?create = "ex_die\<lparr>Message_Action := ''create''\<rparr>"
  have a3: "Message_Type ?create = ''container'' \<and> Message_Action ?create \<in> allowList
      \<and> 12 \<le> length (Actor_ID (Message_Actor ?create))
      \<and> ContainerInspect (dockerClient ex_monitor) (Actor_ID (Message_Actor ?create))
          = Inl (New ''No such container'')"
    by (simp add: ex_die_def allowList_def ex_monitor_def ex_dockerd_def)
  have a3t: "Message_Action ?create \<notin> terminalActions"
    by (simp add: terminalActions_def)
  have a3i: "take 12 (Actor_ID (Message_Actor ?create)) = ''fedcba987654''"
    "Actor_ID (Message_Actor ?create) = ''fedcba9876543210''"
    "take 12 (Actor_ID (Message_Actor ex_die)) = ''fedcba987654''"
    "Actor_ID (Message_Actor ex_die) = ''fedcba9876543210''"
    by (simp_all add: ex_die_def)
  let ?web = "ex_die\<lparr>Message_Actor := (Message_Actor ex_die)\<lparr>Actor_ID := ''aaaabbbbccccdddd''\<rparr>\<rparr>"
  have a4: "Message_Type ?web = ''container'' \<and> Message_Action ?web \<in> allowList
      \<and> 12 \<le> length (Actor_ID (Message_Actor ?web))
      \<and> ContainerInspect (dockerClient ex_monitor) (Actor_ID (Message_Actor ?web)) = Inr ex_webInfo
      \<and> (spec_excluded ex_monitor (Actor_ID (Message_Actor ?web)) (eventName ?web) (eventImage ?web)
          \<or> \<not> IsAzureAgentContainer ex_webInfo)"
  proof -
    have "\<not> IsAzureAgentContainer ex_webInfo" by code_simp
    then show ?thesis
      by (simp add: ex_die_def allowList_def ex_monitor_def ex_dockerd_def)
  qed
  have a5: "activityChan (snd (handleDockerEvent ex_monitor ex_start ex_world))
      \<noteq> activityChan ex_world"
    by code_simp
  show ?thesis
    using C5_handle_event [where event = "ex_start\<lparr>Message_Action := ''destroy''\<rparr>"
        and m = ex_monitor and w = ex_world]
      C5_handle_event [where event = ex_die and m = ex_monitor and w = ex_world
        and err = "New ''No such container''"]
      C5_handle_event [where event = ?create and m = ex_monitor and w = ex_world
        and err = "New ''No such container''"]
      C5_handle_event [where event = ?web and m = ex_monitor and w = ex_world
        and containerInfo = ex_webInfo]
      C5_handle_event [where event = ex_start and m = ex_monitor and w = ex_world]
      a1 a2 a2t a3 a3t a3i a4 a5 t
    by simp
qed

text \<open>
  C5 as stated fails on an identity shorter than 12 bytes: for a "start" event on the
  identity "abc" whose container cannot be inspected, the handler does not drop the
  event with a warning; it panics on \<^verbatim>\<open>event.Actor.ID[:12]\<close> while it builds the warning,
  and no line is written.
\<close>

theorem C5_short_identity_counterexample:
  "Message_Type ex_short_start = ''container''
   \<and> Message_Action ex_short_start \<in> allowList
   \<and> Message_Action ex_short_start \<notin> terminalActions
   \<and> isl (ContainerInspect (dockerClient ex_monitor) (Actor_ID (Message_Actor ex_short_start)))
   \<and> fst (handleDockerEvent ex_monitor ex_short_start ex_world) = Panic SliceBoundsOutOfRange
   \<and> filter isWarning (Trace (snd (handleDockerEvent ex_monitor ex_short_start ex_world))) = []"
  by (simp add: handleDockerEvent_def handleDockerEvent_body_cases ex_short_start_def
      allowList_def terminalActions_def ex_monitor_def ex_dockerd_def ex_world_def perform_def)

text \<open>
  C6 (amended). An event that the handler of live events puts on the channel carries
  the time of the runtime event, \<^verbatim>\<open>time.Unix(event.Time, 0)\<close>. The events that the inventory
  pass of \<open>StartMonitoring\<close> puts on the channel carry observation times: they are
  stamped, in order, with the successive readings of the clock of the process
  (\<^verbatim>\<open>time.Now()\<close>) taken while the containers are classified.
\<close>

theorem C6_timestamps:
  "(activityChan (snd (handleDockerEvent m event w)) = activityChan w
    \<or> (\<exists>ae. activityChan (snd (handleDockerEvent m event w))
               = (activityChan w)\<lparr>Buf := Buf (activityChan w) @ [ae]\<rparr>
            \<and> Timestamp ae = Unix (Message_Time event) 0))
   \<and> (\<exists>evs. activityChan (snd (StartMonitoring m w))
               = (activityChan w)\<lparr>Buf := Buf (activityChan w) @ evs\<rparr>
            \<and> map Timestamp evs = map (Clock w) [Reads w ..< Reads w + length evs])"
proof
  show "activityChan (snd (handleDockerEvent m event w)) = activityChan w
    \<or> (\<exists>ae. activityChan (snd (handleDockerEvent m event w))
               = (activityChan w)\<lparr>Buf := Buf (activityChan w) @ [ae]\<rparr>
            \<and> Timestamp ae = Unix (Message_Time event) 0)"
  proof -
    have "Timestamp (liveEvent event) = Unix (Message_Time event) 0"
      by (simp add: liveEvent_def)
    then show ?thesis
      using handleDockerEvent_adds [of m event w] by blast
  qed
next
  obtain evs where e: "activityChan (snd (StartMonitoring m w))
            = (activityChan w)\<lparr>Buf := Buf (activityChan w) @ evs\<rparr>"
    and c: "evs = [] \<or> (\<exists>containers k. evs = take k (inventoryEvents m containers w))"
    using StartMonitoring_chan [of m w] by blast
  have "map Timestamp evs = map (Clock w) [Reads w ..< Reads w + length evs]"
    using c inventoryEvents_take_Timestamp by auto
  then show "\<exists>evs. activityChan (snd (StartMonitoring m w))
               = (activityChan w)\<lparr>Buf := Buf (activityChan w) @ evs\<rparr>
            \<and> map Timestamp evs = map (Clock w) [Reads w ..< Reads w + length evs]"
    using e by blast
qed

theorem C6_timestamps_witness:
  "map Timestamp (Buf (activityChan (snd (handleDockerEvent ex_monitor ex_start ex_world))))
     = [Unix 42 0]
   \<and> map Timestamp (Buf (activityChan (snd (StartMonitoring ex_monitor ex_world))))
     = [Clock ex_world 0]"
proof -
  have b: "Buf (activityChan ex_world) = []" "Reads ex_world = 0"
    by (simp_all add: ex_world_def)
  have t: "Message_Time ex_start = 42"
    by (simp add: ex_start_def)
  have h: "activityChan (snd (handleDockerEvent ex_monitor ex_start ex_world))
      \<noteq> activityChan ex_world"
    by code_simp
  have n: "length (Buf (activityChan (snd (StartMonitoring ex_monitor ex_world)))) = 1"
    by code_simp
  from C6_timestamps [of ex_monitor ex_start ex_world]
  obtain ae evs where
    "activityChan (snd (handleDockerEvent ex_monitor ex_start ex_world))
       = (activityChan ex_world)\<lparr>Buf := Buf (activityChan ex_world) @ [ae]\<rparr>"
    "Timestamp ae = Unix (Message_Time ex_start) 0"
    "activityChan (snd (StartMonitoring ex_monitor ex_world))
       = (activityChan ex_world)\<lparr>Buf := Buf (activityChan ex_world) @ evs\<rparr>"
    "map Timestamp evs = map (Clock ex_world) [Reads ex_world ..< Reads ex_world + length evs]"
    using h by blast
  then show ?thesis
    using b t n by simp
qed

text \<open>
  C6 as stated fails for the inventory pass: on the same daemon, with the same
  containers, the event of the build agent is stamped second 1000 when the clock of the
  process reads 1000 and second 2000 when it reads 2000. The stamp is the time of
  observation; the daemon's answers carry no time that the code reads.
\<close>

theorem C6_inventory_counterexample:
  "map Timestamp (Buf (activityChan (snd (StartMonitoring ex_monitor ex_world))))
     = [Unix 1000 0]
   \<and> map Timestamp (Buf (activityChan (snd (StartMonitoring ex_monitor ex_world_later))))
     = [Unix 2000 0]
   \<and> Clock ex_world 0 = Unix 1000 0
   \<and> Clock ex_world_later 0 = Unix 2000 0"
  by code_simp

text \<open>
  C9. Every event that an operation of the monitor puts on the channel has its flag
  \<open>IsAzureAgent\<close> set and, as \<open>ContainerID\<close>, the first 12 bytes of the identity of its
  container, 12 bytes long: the handler of live events adds at most one event, made from
  the identity of the actor of the runtime event; \<open>StartMonitoring\<close> adds events made from
  the identities of listed containers; the enumeration, the snapshot query and \<open>Stop\<close>
  add nothing.
\<close>

theorem C9_emitted_events:
  "(activityChan (snd (handleDockerEvent m event w)) = activityChan w
    \<or> (\<exists>ae. activityChan (snd (handleDockerEvent m event w))
               = (activityChan w)\<lparr>Buf := Buf (activityChan w) @ [ae]\<rparr>
            \<and> IsAzureAgent ae
            \<and> ContainerID ae = take 12 (Actor_ID (Message_Actor event))
            \<and> length (ContainerID ae) = 12))
   \<and> (\<exists>evs. activityChan (snd (StartMonitoring m w))
               = (activityChan w)\<lparr>Buf := Buf (activityChan w) @ evs\<rparr>
            \<and> (\<forall>ae \<in> set evs.
                  IsAzureAgent ae \<and> length (ContainerID ae) = 12
                  \<and> (\<exists>containers c. ContainerList (dockerClient m) = Inr containers
                        \<and> c \<in> set containers
                        \<and> ContainerID ae = take 12 (Container_ID c))))
   \<and> activityChan (snd (GetRunningAzureAgents m w)) = activityChan w
   \<and> activityChan (snd (HasActiveAgents m w)) = activityChan w
   \<and> Buf (activityChan (snd (Monitor_Stop w))) = Buf (activityChan w)"
proof (intro conjI)
  show "activityChan (snd (handleDockerEvent m event w)) = activityChan w
    \<or> (\<exists>ae. activityChan (snd (handleDockerEvent m event w))
               = (activityChan w)\<lparr>Buf := Buf (activityChan w) @ [ae]\<rparr>
            \<and> IsAzureAgent ae
            \<and> ContainerID ae = take 12 (Actor_ID (Message_Actor event))
            \<and> length (ContainerID ae) = 12)"
  proof -
    have "IsAzureAgent (liveEvent event)
        \<and> ContainerID (liveEvent event) = take 12 (Actor_ID (Message_Actor event))"
      by (simp add: liveEvent_def)
    moreover have "12 \<le> length (Actor_ID (Message_Actor event))
        \<Longrightarrow> length (ContainerID (liveEvent event)) = 12"
      by (simp add: liveEvent_def)
    ultimately show ?thesis
      using handleDockerEvent_adds [of m event w] by blast
  qed
next
  obtain evs where e: "activityChan (snd (StartMonitoring m w))
            = (activityChan w)\<lparr>Buf := Buf (activityChan w) @ evs\<rparr>"
    and c: "evs = []
         \<or> (\<exists>containers k.
               ContainerList (dockerClient m) = Inr containers
             \<and> (\<forall>c \<in> set containers. \<not> panics_on m c)
             \<and> evs = take k (inventoryEvents m containers w))"
    using StartMonitoring_chan [of m w] by blast
  have "\<forall>ae \<in> set evs.
          IsAzureAgent ae \<and> length (ContainerID ae) = 12
          \<and> (\<exists>containers c. ContainerList (dockerClient m) = Inr containers
                \<and> c \<in> set containers
                \<and> ContainerID ae = take 12 (Container_ID c))"
  proof
    fix ae
    assume ae: "ae \<in> set evs"
    then obtain containers k where l: "ContainerList (dockerClient m) = Inr containers"
      and p: "\<forall>c \<in> set containers. \<not> panics_on m c"
      and evs: "evs = take k (inventoryEvents m containers w)"
      using c by auto
    obtain c t where ct: "c \<in> set containers" "tracked m c" "ae = runningEvent c t"
      using inventoryEvents_member ae evs by blast
    have "12 \<le> length (Container_ID c)"
      using p ct(1,2) by (auto simp: panics_on_def tracked_def)
    then show "IsAzureAgent ae \<and> length (ContainerID ae) = 12
          \<and> (\<exists>containers c. ContainerList (dockerClient m) = Inr containers
                \<and> c \<in> set containers
                \<and> ContainerID ae = take 12 (Container_ID c))"
      using l ct by (auto simp: runningEvent_def)
  qed
  then show "\<exists>evs. activityChan (snd (StartMonitoring m w))
               = (activityChan w)\<lparr>Buf := Buf (activityChan w) @ evs\<rparr>
            \<and> (\<forall>ae \<in> set evs.
                  IsAzureAgent ae \<and> length (ContainerID ae) = 12
                  \<and> (\<exists>containers c. ContainerList (dockerClient m) = Inr containers
                        \<and> c \<in> set containers
                        \<and> ContainerID ae = take 12 (Container_ID c)))"
    using e by blast
next
  show "activityChan (snd (GetRunningAzureAgents m w)) = activityChan w"
    by (rule GetRunningAzureAgents_chan)
next
  show "activityChan (snd (HasActiveAgents m w)) = activityChan w"
    by (rule HasActiveAgents_chan)
next
  show "Buf (activityChan (snd (Monitor_Stop w))) = Buf (activityChan w)"
    by (simp add: Monitor_Stop_def Stop_closeChan_def Stop_closeClient_def Stop_cancel_def
        perform_def)
qed

theorem C9_emitted_events_witness:
  "map (\<lambda>ae. (IsAzureAgent ae, ContainerID ae))
     (Buf (activityChan (snd (handleDockerEvent ex_monitor ex_start ex_world))))
     = [(True, ''0123456789ab'')]
   \<and> map IsAzureAgent (Buf (activityChan (snd (StartMonitoring ex_monitor ex_world))))
     = [True]
   \<and> map (\<lambda>ae. length (ContainerID ae))
       (Buf (activityChan (snd (StartMonitoring ex_monitor ex_world)))) = [12]"
proof -
  have b: "Buf (activityChan ex_world) = []"
    by (simp add: ex_world_def)
  have i: "take 12 (Actor_ID (Message_Actor ex_start)) = ''0123456789ab''"
    by (simp add: ex_start_def)
  have h: "activityChan (snd (handleDockerEvent ex_monitor ex_start ex_world))
      \<noteq> activityChan ex_world"
    by code_simp
  have n: "length (Buf (activityChan (snd (StartMonitoring ex_monitor ex_world)))) = 1"
    by code_simp
  from C9_emitted_events [of ex_monitor ex_start ex_world]
  obtain ae evs where ae:
    "activityChan (snd (handleDockerEvent ex_monitor ex_start ex_world))
       = (activityChan ex_world)\<lparr>Buf := Buf (activityChan ex_world) @ [ae]\<rparr>"
    "IsAzureAgent ae" "ContainerID ae = take 12 (Actor_ID (Message_Actor ex_start))"
    and evs: "activityChan (snd (StartMonitoring ex_monitor ex_world))
       = (activityChan ex_world)\<lparr>Buf := Buf (activityChan ex_world) @ evs\<rparr>"
    "\<forall>ae \<in> set evs. IsAzureAgent ae \<and> length (ContainerID ae) = 12"
    using h by blast
  have "length evs = 1"
    using n evs(1) b by simp
  then obtain e1 where "evs = [e1]"
    by (cases evs) auto
  then show ?thesis
    using ae evs b i by simp
qed

text \<open>
  C10. On an identity shorter than 12 bytes the operations of the monitor panic on a
  slice bound: \<open>isExcluded\<close> whenever a rule matches (it returns on every identity of at
  least 12 bytes); the handler of live events, for a container event with an allowed
  action, when the container cannot be inspected (the log of the vanished container), is
  excluded, or is classified (the emission); it never panics so on an identity of at
  least 12 bytes; \<open>GetRunningAzureAgents\<close> when a listed container with such an identity
  is tracked (the containers having names); it returns when every listed container has
  a name and an identity of at least 12 bytes.
\<close>

theorem C10_short_identity_panics:
  "(length containerID < 12 \<and> spec_excluded m containerID containerName imageName \<longrightarrow>
      fst (isExcluded m containerID containerName imageName w) = Panic SliceBoundsOutOfRange)
   \<and> (12 \<le> length containerID \<longrightarrow>
        (\<exists>b. fst (isExcluded m containerID containerName imageName w) = Return b))
   \<and> (length (Actor_ID (Message_Actor event)) < 12
        \<and> Message_Type event = ''container'' \<and> Message_Action event \<in> allowList
        \<and> (isl (ContainerInspect (dockerClient m) (Actor_ID (Message_Actor event)))
            \<or> spec_excluded m (Actor_ID (Message_Actor event)) (eventName event)
                 (eventImage event)
            \<or> classified m (Actor_ID (Message_Actor event))) \<longrightarrow>
        fst (handleDockerEvent m event w) = Panic SliceBoundsOutOfRange)
   \<and> (12 \<le> length (Actor_ID (Message_Actor event)) \<longrightarrow>
        fst (handleDockerEvent m event w) \<noteq> Panic SliceBoundsOutOfRange)
   \<and> (ContainerList (dockerClient m) = Inr containers
        \<and> (\<forall>c \<in> set containers. Container_Names c \<noteq> [])
        \<and> (\<exists>c \<in> set containers. length (Container_ID c) < 12 \<and> tracked m c) \<longrightarrow>
        fst (GetRunningAzureAgents m w) = Panic SliceBoundsOutOfRange)
   \<and> (ContainerList (dockerClient m) = Inr containers
        \<and> (\<forall>c \<in> set containers. Container_Names c \<noteq> [] \<and> 12 \<le> length (Container_ID c)) \<longrightarrow>
        (\<exists>agents. fst (GetRunningAzureAgents m w) = Return (Inr agents)))"
proof (intro conjI impI)
  assume "length containerID < 12 \<and> spec_excluded m containerID containerName imageName"
  then show "fst (isExcluded m containerID containerName imageName w)
      = Panic SliceBoundsOutOfRange"
    by (simp add: isExcluded_fst)
next
  assume "12 \<le> length containerID"
  then show "\<exists>b. fst (isExcluded m containerID containerName imageName w) = Return b"
    by (auto simp: isExcluded_fst)
next
  assume a: "length (Actor_ID (Message_Actor event)) < 12
        \<and> Message_Type event = ''container'' \<and> Message_Action event \<in> allowList
        \<and> (isl (ContainerInspect (dockerClient m) (Actor_ID (Message_Actor event)))
            \<or> spec_excluded m (Actor_ID (Message_Actor event)) (eventName event)
                 (eventImage event)
            \<or> classified m (Actor_ID (Message_Actor event)))"
  then have "fst (handleDockerEvent_body m event w) = Panic SliceBoundsOutOfRange"
    by (auto simp: handleDockerEvent_body_cases classified_def isl_def split: sum.splits)
  then show "fst (handleDockerEvent m event w) = Panic SliceBoundsOutOfRange"
    by (simp add: handleDockerEvent_fst)
next
  assume a: "12 \<le> length (Actor_ID (Message_Actor event))"
  then have "fst (handleDockerEvent_body m event w) = Return None
      \<or> fst (handleDockerEvent_body m event w) = Return (Some (liveEvent event))"
    by (auto simp: handleDockerEvent_body_cases split: sum.splits)
  then show "fst (handleDockerEvent m event w) \<noteq> Panic SliceBoundsOutOfRange"
    by (auto simp: handleDockerEvent_fst chanSend_def split: if_splits)
next
  assume a: "ContainerList (dockerClient m) = Inr containers
        \<and> (\<forall>c \<in> set containers. Container_Names c \<noteq> [])
        \<and> (\<exists>c \<in> set containers. length (Container_ID c) < 12 \<and> tracked m c)"
  then have "\<exists>c \<in> set containers. panics_on m c"
    by (auto simp: panics_on_def tracked_def)
  then have "fst (agentsLoop m containers [] (perform ContainerListCall w))
      = Panic SliceBoundsOutOfRange"
    using a agentsLoop_slice_panic by blast
  then show "fst (GetRunningAzureAgents m w) = Panic SliceBoundsOutOfRange"
    using a
    by (cases "agentsLoop m containers [] (perform ContainerListCall w)")
       (simp add: GetRunningAzureAgents_Inr)
next
  assume a: "ContainerList (dockerClient m) = Inr containers
        \<and> (\<forall>c \<in> set containers. Container_Names c \<noteq> [] \<and> 12 \<le> length (Container_ID c))"
  then have "\<forall>c \<in> set containers. \<not> panics_on m c"
    by (auto simp: panics_on_def)
  then obtain agents where
    "fst (agentsLoop m containers [] (perform ContainerListCall w)) = Return agents"
    using agentsLoop_outcome [of m containers "[]" "perform ContainerListCall w"] by blast
  then have "fst (GetRunningAzureAgents m w) = Return (Inr agents)"
    using a
    by (cases "agentsLoop m containers [] (perform ContainerListCall w)")
       (simp add: GetRunningAzureAgents_Inr)
  then show "\<exists>agents. fst (GetRunningAzureAgents m w) = Return (Inr agents)"
    by blast
qed

theorem C10_short_identity_panics_witness:
  "fst (isExcluded ex_filter ''abc'' ''web'' ''myrepo/azure-agent:latest'' ex_world)
     = Panic SliceBoundsOutOfRange
   \<and> (\<exists>b. fst (isExcluded ex_filter ''0123456789abcdef'' ''web'' ''myrepo/azure-agent:latest''
                  ex_world) = Return b)
   \<and> fst (handleDockerEvent ex_monitor ex_short_start ex_world) = Panic SliceBoundsOutOfRange
   \<and> fst (handleDockerEvent ex_monitor ex_start ex_world) \<noteq> Panic SliceBoundsOutOfRange
   \<and> fst (GetRunningAzureAgents ex_short_monitor ex_world) = Panic SliceBoundsOutOfRange
   \<and> (\<exists>agents. fst (GetRunningAzureAgents ex_monitor ex_world) = Return (Inr agents))"
proof -
  have e: "spec_excluded ex_filter ''abc'' ''web'' ''myrepo/azure-agent:latest''"
    unfolding spec_excluded_def Contains_sublist [symmetric]
    by (simp add: ex_filter_def)
  have s: "length (Actor_ID (Message_Actor ex_short_start)) < 12
      \<and> Message_Type ex_short_start = ''container''
      \<and> Message_Action ex_short_start \<in> allowList
      \<and> isl (ContainerInspect (dockerClient ex_monitor) (Actor_ID (Message_Actor ex_short_start)))"
    by (simp add: ex_short_start_def allowList_def ex_monitor_def ex_dockerd_def)
  have l: "12 \<le> length (Actor_ID (Message_Actor ex_start))"
    by (simp add: ex_start_def)
  let ?cs = "[\<lparr>Container_ID = ''abc'', Container_Names = [''/agent1''],
                 Container_Image = ''vsts-agent:1''\<rparr>]"
  have t: "tracked ex_short_monitor
      \<lparr>Container_ID = ''abc'', Container_Names = [''/agent1''], Container_Image = ''vsts-agent:1''\<rparr>"
    by code_simp
  have g: "ContainerList (dockerClient ex_short_monitor) = Inr ?cs
      \<and> (\<forall>c \<in> set ?cs. Container_Names c \<noteq> [])
      \<and> (\<exists>c \<in> set ?cs. length (Container_ID c) < 12 \<and> tracked ex_short_monitor c)"
    using t by (simp add: ex_short_monitor_def)
  have ok: "ContainerList (dockerClient ex_monitor) = Inr ex_containers
      \<and> (\<forall>c \<in> set ex_containers. Container_Names c \<noteq> [] \<and> 12 \<le> length (Container_ID c))"
    by (simp add: ex_monitor_def ex_dockerd_def ex_containers_def)
  show ?thesis
    using C10_short_identity_panics [where m = ex_filter and containerID = "''abc''"
        and containerName = "''web''" and imageName = "''myrepo/azure-agent:latest''"
        and w = ex_world and event = ex_start and containers = "[]"]
      C10_short_identity_panics [where m = ex_filter and containerID = "''0123456789abcdef''"
        and containerName = "''web''" and imageName = "''myrepo/azure-agent:latest''"
        and w = ex_world and event = ex_start and containers = "[]"]
      C10_short_identity_panics [where m = ex_monitor and containerID = "''abc''"
        and containerName = "''web''" and imageName = "''x''"
        and w = ex_world and event = ex_short_start and containers = ex_containers]
      C10_short_identity_panics [where m = ex_monitor and containerID = "''abc''"
        and containerName = "''web''" and imageName = "''x''"
        and w = ex_world and event = ex_start and containers = ex_containers]
      C10_short_identity_panics [where m = ex_short_monitor and containerID = "''abc''"
        and containerName = "''web''" and imageName = "''x''"
        and w = ex_world and event = ex_start and containers = ?cs]
      e s l g ok
    by simp
qed

text \<open>
  C8 (amended). In the heartbeat loop, for ticks in which the snapshot query returns:
  each tick queries the snapshot once; when the query returns an error, the tick only
  logs it, sends no signal, and the loop goes on; when it returns a boolean, the tick
  calls \<open>SendActivitySignal\<close> with that boolean, logs a failure of the signal, and the loop
  goes on; when the \<^verbatim>\<open>select\<close> takes the stop case the loop returns, whatever ticks came
  before and whatever would follow; and the heartbeat returns for no other reason.
\<close>

theorem C8_heartbeat:
  "((\<forall>d \<in> set ds. tickReturns monitor d) \<longrightarrow>
      heartbeatLoop n monitor (map TickerC ds @ selects) w
        = heartbeatLoop n monitor selects (foldl (tick n monitor) w ds)
      \<and> filter isListCall (Trace (foldl (tick n monitor) w ds))
          = filter isListCall (Trace w) @ replicate (length ds) ContainerListCall)
   \<and> (ContainerList d = Inl err \<longrightarrow>
        tick n monitor w d
          = logPrintf (ErrorCheckingAgents (Wrap ''failed to list containers'' err))
              (perform ContainerListCall w))
   \<and> (ContainerList d = Inr containers \<and> tickReturns monitor d \<longrightarrow>
        tick n monitor w d =
          (case SendActivitySignal n
                  (filter (tracked (monitor\<lparr>dockerClient := d\<rparr>)) containers \<noteq> [])
                  (snd (HasActiveAgents (monitor\<lparr>dockerClient := d\<rparr>) w)) of
             (None, w2) \<Rightarrow> w2
           | (Some err, w2) \<Rightarrow> logPrintf (ErrorSendingSignal err) w2))
   \<and> heartbeatLoop n monitor (StopChan # rest) w = (Return (), logPrintf HeartbeatStopped w)
   \<and> (0 < heartbeatInterval n \<and> (\<forall>d \<in> set ds. tickReturns monitor d) \<longrightarrow>
        fst (StartHeartbeat n monitor (map TickerC ds @ StopChan # rest) w) = Return ())
   \<and> (fst (StartHeartbeat n monitor selects w) = Return () \<longrightarrow> StopChan \<in> set selects)"
proof (intro conjI impI)
  assume "\<forall>d \<in> set ds. tickReturns monitor d"
  then show "heartbeatLoop n monitor (map TickerC ds @ selects) w
        = heartbeatLoop n monitor selects (foldl (tick n monitor) w ds)"
    by (rule heartbeatLoop_ticks)
next
  assume "\<forall>d \<in> set ds. tickReturns monitor d"
  then show "filter isListCall (Trace (foldl (tick n monitor) w ds))
          = filter isListCall (Trace w) @ replicate (length ds) ContainerListCall"
    by (rule ticks_queries)
next
  assume "ContainerList d = Inl err"
  then show "tick n monitor w d
          = logPrintf (ErrorCheckingAgents (Wrap ''failed to list containers'' err))
              (perform ContainerListCall w)"
    by (rule tick_Inl)
next
  assume "ContainerList d = Inr containers \<and> tickReturns monitor d"
  then show "tick n monitor w d =
          (case SendActivitySignal n
                  (filter (tracked (monitor\<lparr>dockerClient := d\<rparr>)) containers \<noteq> [])
                  (snd (HasActiveAgents (monitor\<lparr>dockerClient := d\<rparr>) w)) of
             (None, w2) \<Rightarrow> w2
           | (Some err, w2) \<Rightarrow> logPrintf (ErrorSendingSignal err) w2)"
    using tick_Inr by blast
next
  show "heartbeatLoop n monitor (StopChan # rest) w = (Return (), logPrintf HeartbeatStopped w)"
    by simp
next
  assume "0 < heartbeatInterval n \<and> (\<forall>d \<in> set ds. tickReturns monitor d)"
  then show "fst (StartHeartbeat n monitor (map TickerC ds @ StopChan # rest) w) = Return ()"
    by (simp add: StartHeartbeat_def heartbeatLoop_ticks del: heartbeatLoop.simps)
       simp
next
  assume "fst (StartHeartbeat n monitor selects w) = Return ()"
  then show "StopChan \<in> set selects"
    using heartbeatLoop_Return [of n monitor selects]
    by (auto simp: StartHeartbeat_def split: if_splits)
qed

theorem C8_heartbeat_witness:
  "fst (StartHeartbeat ex_resolved ex_monitor [TickerC ex_dockerd, TickerC ex_down, StopChan]
          ex_world) = Return ()
   \<and> filter isListCall
        (Trace (foldl (tick ex_resolved ex_monitor) ex_world [ex_dockerd, ex_down]))
       = [ContainerListCall, ContainerListCall]
   \<and> Trace (tick ex_resolved ex_monitor ex_world ex_down)
       = [ContainerListCall,
          Log (ErrorCheckingAgents
                 (Wrap ''failed to list containers''
                    (New ''Cannot connect to the Docker daemon'')))]
   \<and> fst (heartbeatLoop ex_resolved ex_monitor [StopChan, TickerC ex_dockerd] ex_world)
       = Return ()"
proof -
  have r: "\<forall>d \<in> set [ex_dockerd, ex_down]. tickReturns ex_monitor d"
    by code_simp
  have i: "0 < heartbeatInterval ex_resolved"
    by (simp add: ex_resolved_def ex_unresolved_def)
  have l: "ContainerList ex_down = Inl (New ''Cannot connect to the Docker daemon'')"
    by (simp add: ex_down_def)
  have t: "Trace ex_world = []"
    by (simp add: ex_world_def)
  show ?thesis
    using C8_heartbeat [where n = ex_resolved and monitor = ex_monitor
        and ds = "[ex_dockerd, ex_down]" and selects = "[StopChan]" and w = ex_world
        and d = ex_down and err = "New ''Cannot connect to the Docker daemon''"
        and rest = "[]"]
      C8_heartbeat [where n = ex_resolved and monitor = ex_monitor
        and ds = "[]" and selects = "[]" and w = ex_world
        and d = ex_down and err = "New ''Cannot connect to the Docker daemon''"
        and rest = "[TickerC ex_dockerd]"]
      r i l t
    by (simp add: logPrintf_def perform_def del: heartbeatLoop.simps)
qed

text \<open>
  C8 as stated fails on a tick in which the snapshot query panics: when the daemon lists
  a build agent whose identity has three bytes, the first tick ends the heartbeat with
  a panic on a slice bound, although the \<^verbatim>\<open>select\<close> never took the stop case.
\<close>

theorem C8_panic_counterexample:
  "fst (StartHeartbeat ex_resolved ex_monitor [TickerC (dockerClient ex_short_monitor)] ex_world)
     = Panic SliceBoundsOutOfRange
   \<and> list_all (\<lambda>sel. case sel of TickerC d \<Rightarrow> True | StopChan \<Rightarrow> False)
       [TickerC (dockerClient ex_short_monitor)]"
  by code_simp

text \<open>
  C7. The claim: in every interleaving with at most one call of \<open>Stop\<close>, no send on the
  event channel happens after the channel has been closed. The code breaks it: in the
  schedule below, with one call of \<open>Stop\<close>, the event loop has received the start of a
  build agent and built its event when \<open>Stop\<close> cancels the context, closes the client and
  closes the channel; the handler then runs its last statement, the send, on the closed
  channel, and the goroutine panics.
\<close>

theorem C7_send_after_close:
  "map_option (\<lambda>p. (Closed (activityChan (World p)), Stopper p, EventLoop p))
     (exec ex_monitor [ReceiveEvent ex_start, StopStep, StopStep, StopStep] ex_process)
     = Some (True, Stopped, Sending (liveEvent ex_start))
   \<and> map_option EventLoop (exec ex_monitor ex_shutdown_race ex_process)
     = Some (Crashed SendOnClosedChannel)
   \<and> length (filter (\<lambda>s. case s of StopStep \<Rightarrow> True | _ \<Rightarrow> False) ex_shutdown_race) = 3"
  by code_simp

end
